theory Spec2Isabelle
  imports Complex_Main
begin

section \<open>Python values used by the gateway\<close>

text \<open>
  A Python \<open>str\<close> is a sequence of Unicode code points and a \<open>bytes\<close> object a sequence
  of values below 256; both are lists of naturals here.  A string literal of the source is
  written \<open>str ''...''\<close>.
\<close>

type_synonym pstr = "nat list"
type_synonym pbytes = "nat list"

abbreviation str :: "string \<Rightarrow> pstr" where
  "str s \<equiv> map of_char s"

subsection \<open>\<open>format(n, '02X')\<close>\<close>

definition hex_digit_upper :: "nat \<Rightarrow> nat" where
  "hex_digit_upper d = (if d < 10 then 48 + d else 55 + d)"

text \<open>\<open>format(n, 'X')\<close>: the uppercase hexadecimal digits of \<open>n\<close>, most significant first.\<close>

fun format_X :: "nat \<Rightarrow> pstr" where
  "format_X n = (if n < 16 then [hex_digit_upper n]
                 else format_X (n div 16) @ [hex_digit_upper (n mod 16)])"

declare format_X.simps [simp del]

text \<open>\<open>format(n, '02X')\<close>: the same, padded with zeros on the left to at least two digits.\<close>

definition format_02X :: "nat \<Rightarrow> pstr" where
  "format_02X n = (let ds = format_X n in replicate (2 - length ds) 48 @ ds)"

subsection \<open>\<open>bytes.fromhex\<close>\<close>

text \<open>
  CPython's \<open>bytes.fromhex\<close> reads pairs of hexadecimal digits (either case), skips ASCII
  whitespace in front of a pair, and raises \<open>ValueError\<close> (here \<open>None\<close>) at any other
  character and at a digit that is not followed by a second digit.
\<close>

definition hex_value :: "nat \<Rightarrow> nat option" where
  "hex_value c =
     (if 48 \<le> c \<and> c \<le> 57 then Some (c - 48)
      else if 65 \<le> c \<and> c \<le> 70 then Some (c - 55)
      else if 97 \<le> c \<and> c \<le> 102 then Some (c - 87)
      else None)"

definition is_ascii_space :: "nat \<Rightarrow> bool" where
  "is_ascii_space c = (c = 32 \<or> (9 \<le> c \<and> c \<le> 13))"

fun bytes_fromhex :: "pstr \<Rightarrow> pbytes option" where
  "bytes_fromhex [] = Some []"
| "bytes_fromhex (c # cs) =
     (if is_ascii_space c then bytes_fromhex cs
      else case hex_value c of
        None \<Rightarrow> None
      | Some hi \<Rightarrow>
          (case cs of
             [] \<Rightarrow> None
           | d # ds \<Rightarrow>
               (case hex_value d of
                  None \<Rightarrow> None
                | Some lo \<Rightarrow> map_option ((#) (hi * 16 + lo)) (bytes_fromhex ds))))"

subsection \<open>UTF-8 decoding\<close>

text \<open>
  One step of CPython's UTF-8 decoder on a non-empty input: either a code point and the
  number of bytes it took, or an error and the number of bytes the error covers (what
  \<open>errors='ignore'\<close> skips): one byte for an invalid start byte, the bytes read so far for
  an invalid continuation byte, everything left for an unexpected end of data.
\<close>

datatype utf8_step = Decoded nat nat | Invalid nat

definition is_continuation :: "nat \<Rightarrow> bool" where
  "is_continuation b = (128 \<le> b \<and> b < 192)"

fun utf8_next :: "pbytes \<Rightarrow> utf8_step" where
  "utf8_next [] = Invalid 0"
| "utf8_next (b # bs) =
     (if b < 128 then Decoded b 1
      else if b < 194 then Invalid 1
      else if b < 224 then
        (case bs of
           [] \<Rightarrow> Invalid 1
         | c2 # _ \<Rightarrow>
             if \<not> is_continuation c2 then Invalid 1
             else Decoded ((b - 192) * 64 + (c2 - 128)) 2)
      else if b < 240 then
        (case bs of
           [] \<Rightarrow> Invalid 1
         | [c2] \<Rightarrow>
             if \<not> is_continuation c2 \<or> (if c2 < 160 then b = 224 else b = 237)
             then Invalid 1 else Invalid 2
         | c2 # c3 # _ \<Rightarrow>
             if \<not> is_continuation c2 then Invalid 1
             else if b = 224 \<and> c2 < 160 then Invalid 1
             else if b = 237 \<and> 160 \<le> c2 then Invalid 1
             else if \<not> is_continuation c3 then Invalid 2
             else Decoded ((b - 224) * 4096 + (c2 - 128) * 64 + (c3 - 128)) 3)
      else if b < 245 then
        (case bs of
           [] \<Rightarrow> Invalid 1
         | [c2] \<Rightarrow>
             if \<not> is_continuation c2 \<or> (if c2 < 144 then b = 240 else b = 244)
             then Invalid 1 else Invalid 2
         | [c2, c3] \<Rightarrow>
             if \<not> is_continuation c2 \<or> (if c2 < 144 then b = 240 else b = 244)
             then Invalid 1
             else if \<not> is_continuation c3 then Invalid 2 else Invalid 3
         | c2 # c3 # c4 # _ \<Rightarrow>
             if \<not> is_continuation c2 then Invalid 1
             else if b = 240 \<and> c2 < 144 then Invalid 1
             else if b = 244 \<and> 144 \<le> c2 then Invalid 1
             else if \<not> is_continuation c3 then Invalid 2
             else if \<not> is_continuation c4 then Invalid 3
             else Decoded ((b - 240) * 262144 + (c2 - 128) * 4096
                           + (c3 - 128) * 64 + (c4 - 128)) 4)
      else Invalid 1)"

text \<open>\<open>bs.decode('utf-8', errors='ignore')\<close>: invalid sequences are dropped.\<close>

fun decode_utf8_ignore :: "pbytes \<Rightarrow> pstr" where
  "decode_utf8_ignore [] = []"
| "decode_utf8_ignore (b # bs) =
     (case utf8_next (b # bs) of
        Decoded c n \<Rightarrow> c # decode_utf8_ignore (drop (n - 1) bs)
      | Invalid n \<Rightarrow> decode_utf8_ignore (drop (n - 1) bs))"

text \<open>\<open>bs.decode('utf-8')\<close>: \<open>None\<close> stands for \<open>UnicodeDecodeError\<close>.\<close>

fun decode_utf8_strict :: "pbytes \<Rightarrow> pstr option" where
  "decode_utf8_strict [] = Some []"
| "decode_utf8_strict (b # bs) =
     (case utf8_next (b # bs) of
        Decoded c n \<Rightarrow> map_option ((#) c) (decode_utf8_strict (drop (n - 1) bs))
      | Invalid n \<Rightarrow> None)"

subsection \<open>\<open>str.strip()\<close>, \<open>str.split()\<close>, \<open>str.startswith\<close>\<close>

text \<open>The code points that \<open>str.strip()\<close> and \<open>str.split()\<close> treat as whitespace.\<close>

definition is_space :: "nat \<Rightarrow> bool" where
  "is_space c =
     ((9 \<le> c \<and> c \<le> 13) \<or> (28 \<le> c \<and> c \<le> 32) \<or> c = 133 \<or> c = 160 \<or> c = 5760
      \<or> (8192 \<le> c \<and> c \<le> 8202) \<or> c = 8232 \<or> c = 8233 \<or> c = 8239 \<or> c = 8287
      \<or> c = 12288)"

definition strip :: "pstr \<Rightarrow> pstr" where
  "strip s = rev (dropWhile is_space (rev (dropWhile is_space s)))"

text \<open>\<open>split_from cur s\<close>: the tokens of \<open>s\<close>, where \<open>cur\<close> is the token being read.\<close>

fun split_from :: "pstr \<Rightarrow> pstr \<Rightarrow> pstr list" where
  "split_from cur [] = (if cur = [] then [] else [cur])"
| "split_from cur (c # cs) =
     (if is_space c then (if cur = [] then split_from [] cs else cur # split_from [] cs)
      else split_from (cur @ [c]) cs)"

definition split :: "pstr \<Rightarrow> pstr list" where
  "split s = split_from [] s"

definition startswith :: "pstr \<Rightarrow> pstr \<Rightarrow> bool" where
  "startswith s p = (take (length p) s = p)"

subsection \<open>JSON values and library functions taken as parameters\<close>

text \<open>
  What \<open>json.loads\<close> returns.  A \<open>dict\<close> is the list of its items in insertion order,
  with distinct keys; no arithmetic is done on a \<open>float\<close>, which is carried as a real
  number.
\<close>

datatype json =
    JNull
  | JBool bool
  | JInt int
  | JFloat real
  | JStr pstr
  | JArr "json list"
  | JObj "(pstr \<times> json) list"

text \<open>\<open>d.get(k, dflt)\<close> on a \<open>dict\<close>.\<close>

definition dict_get :: "(pstr \<times> json) list \<Rightarrow> pstr \<Rightarrow> json \<Rightarrow> json" where
  "dict_get d k dflt = (case map_of d k of Some v \<Rightarrow> v | None \<Rightarrow> dflt)"

text \<open>
  Exceptions.  Every class below derives from \<open>Exception\<close>, so an \<open>except Exception\<close>
  clause catches each of them; \<open>RequestException\<close> stands for the class and its subclasses,
  \<open>Exception m\<close> for \<open>raise Exception(m)\<close>.  \<open>KeyboardInterrupt\<close> is not among them: it
  reaches the gateway only as an event of the receive loop.
\<close>

datatype exn =
    Exception pstr
  | JSONDecodeError
  | ValueError
  | RecursionError
  | AttributeError
  | SerialException
  | OSError
  | RequestException
  | RuntimeError

datatype 'a outcome = Returned 'a | Raised exn

text \<open>
  The JSON parser and Unicode lower-casing belong to the Python library, not to the
  gateway: \<open>json_loads\<close> and \<open>str_lower\<close> are parameters of the model.  \<open>json.loads\<close>
  returns a value or raises: \<open>json.JSONDecodeError\<close> on a text that is not JSON, and also
  other exceptions (\<open>RecursionError\<close> on deep nesting, \<open>ValueError\<close> on an integer of too
  many digits).
\<close>

record pylib =
  json_loads :: "pstr \<Rightarrow> json outcome"
  str_lower :: "pstr \<Rightarrow> pstr"

section \<open>Configuration, log records and the outside world\<close>

text \<open>
  class \<open>Config\<close> (lora\_con.py, lines 12-56): the fields the radio session reads.
  Durations are in milliseconds and natural numbers (\<open>time.sleep\<close> rejects a negative
  duration, which the delays of the source, all constants, never are).
\<close>

record config =
  LORA_RESET_COMMAND :: pstr
  LORA_MAC_PAUSE_COMMAND :: pstr
  LORA_RADIO_BW_COMMAND :: pstr
  LORA_RADIO_CR_COMMAND :: pstr
  LORA_RADIO_PWR_COMMAND :: pstr
  LORA_RADIO_FREQ_COMMAND :: pstr
  LORA_RADIO_SF_COMMAND :: pstr
  LORA_RADIO_RX_COMMAND :: pstr
  COMMAND_RETRIES :: int
  COMMAND_RETRY_DELAY :: nat
  POST_URL :: pstr
  SENSOR_ID :: int
  GATEWAY_ID :: pstr

definition Config :: config where
  "Config =
     \<lparr> LORA_RESET_COMMAND = str ''sys reset'',
       LORA_MAC_PAUSE_COMMAND = str ''mac pause'',
       LORA_RADIO_BW_COMMAND = str ''radio set bw 125'',
       LORA_RADIO_CR_COMMAND = str ''radio set cr 4/5'',
       LORA_RADIO_PWR_COMMAND = str ''radio set pwr 20'',
       LORA_RADIO_FREQ_COMMAND = str ''radio set freq 910000000'',
       LORA_RADIO_SF_COMMAND = str ''radio set sf sf7'',
       LORA_RADIO_RX_COMMAND = str ''radio rx 0'',
       COMMAND_RETRIES = 3,
       COMMAND_RETRY_DELAY = 500,
       POST_URL = str ''https://fac7-171-96-191-39.ngrok-free.app/Dashboard/api/update_data.php'',
       SENSOR_ID = 123,
       GATEWAY_ID = str ''GATEWAY001'' \<rparr>"

datatype level = DEBUG | INFO | WARNING | ERROR

text \<open>
  One constructor for each \<open>logger\<close> call of lora\_con.py, with the values its message is
  formatted from.  \<open>Config.DEBUG_MODE\<close> is \<open>True\<close>, so records of every level are emitted.
\<close>

datatype msg =
    Invalid_hex_string pstr
  | Serial_not_open
  | Sent_command pstr
  | Received_response pstr
  | Serial_exception_during_send
  | Unicode_decode_error
  | Command_acknowledged pstr int
  | Attempt_failed int pstr pstr
  | All_attempts_failed int pstr
  | Resetting_module
  | Pausing_mac
  | Setting_frequency
  | Frequency_set
  | Failed_to_set_frequency
  | Setting_spreading_factor
  | Spreading_factor_set
  | Failed_to_set_spreading_factor
  | Entering_receive_mode
  | Now_in_receive_mode
  | Failed_to_set_receive_mode
  | Error_configuring_gateway exn
  | Post_successful json
  | Post_successful_not_json
  | Post_failed int pstr
  | Post_exception
  | Received_packet pstr
  | Parsed_json_data
  | Json_item pstr json
  | Failed_to_decode_json pstr
  | Unexpected_radio_rx_format pstr
  | Receive_error pstr
  | Attempting_reconfigure
  | Received_acknowledgment pstr
  | Unexpected_response pstr
  | Listening
  | Raw_message_received pstr
  | Failed_to_reissue_receive
  | Stopping_receiver
  | Error_while_listening exn

text \<open>The dictionary \<open>post_data\<close> built by \<open>process_received_message\<close>.\<close>

record payload =
  sensor_id :: int
  gateway_id :: pstr
  data_kwh :: json

text \<open>
  What the gateway does to the outside, in order: log records, \<open>ser.write\<close> calls (with
  the command line written), \<open>time.sleep\<close> calls (milliseconds) and \<open>requests.post\<close> calls
  (URL and the dictionary serialised into the body).
\<close>

datatype event =
    Log level msg
  | Serial_write pstr
  | Sleep nat
  | Http_post pstr payload

text \<open>
  What the radio does at one command exchange (\<open>ser.write\<close> followed by
  \<open>ser.readline\<close>): either call raises \<open>serial.SerialException\<close>, or \<open>readline\<close> returns
  bytes (none at all after the read timeout).
\<close>

datatype exchange = Write_raises | Readline_raises | Reply pbytes

text \<open>
  What \<open>requests.post\<close> does: it raises, or it returns a response with a status code, a
  body text and the result of \<open>response.json()\<close> (\<open>None\<close> when that raises
  \<open>json.JSONDecodeError\<close>).
\<close>

datatype http_outcome = Post_raises exn | Response int pstr "json option"

text \<open>
  The state threaded through the gateway: whether \<open>self.ser\<close> is an open port, what the
  radio and the HTTP endpoint will do at the coming calls, and the events so far (oldest
  first).  A radio with idle more scripted stays silent (\<open>readline\<close> times out); an
  endpoint with idle more scripted is unreachable.
\<close>

record world =
  is_open :: bool
  serial_in :: "exchange list"
  http_in :: "http_outcome list"
  trace :: "event list"

definition emit :: "event \<Rightarrow> world \<Rightarrow> world" where
  "emit e w = w\<lparr>trace := trace w @ [e]\<rparr>"

definition log :: "level \<Rightarrow> msg \<Rightarrow> world \<Rightarrow> world" where
  "log l m w = emit (Log l m) w"

definition sleep :: "nat \<Rightarrow> world \<Rightarrow> world" where
  "sleep d w = emit (Sleep d) w"

definition next_exchange :: "world \<Rightarrow> exchange \<times> world" where
  "next_exchange w =
     (case serial_in w of
        [] \<Rightarrow> (Reply [], w)
      | x # xs \<Rightarrow> (x, w\<lparr>serial_in := xs\<rparr>))"

definition requests_post :: "pstr \<Rightarrow> payload \<Rightarrow> world \<Rightarrow> http_outcome \<times> world" where
  "requests_post url data w =
     (let w1 = emit (Http_post url data) w in
      case http_in w1 of
        [] \<Rightarrow> (Post_raises RequestException, w1)
      | r # rs \<Rightarrow> (r, w1\<lparr>http_in := rs\<rparr>))"

section \<open>Helper functions (lora\_con.py, lines 69-96)\<close>

definition string_to_hex :: "pstr \<Rightarrow> pstr" where
  "string_to_hex input_str = concat (map format_02X input_str)"

definition hex_to_string :: "pstr \<Rightarrow> world \<Rightarrow> pstr \<times> world" where
  "hex_to_string hex_str w =
     (case bytes_fromhex hex_str of
        Some bytes_object \<Rightarrow> (decode_utf8_ignore bytes_object, w)
      | None \<Rightarrow> ([], log ERROR (Invalid_hex_string hex_str) w))"

section \<open>\<open>LoRaManager\<close> (lora\_con.py, lines 102-348)\<close>

definition CRLF :: pstr where
  "CRLF = [13, 10]"

text \<open>
  \<open>send_command\<close>, lines 144-171.  The commands are those of the configuration, which
  \<open>str.encode\<close> accepts; the event of the write holds the line before encoding.
\<close>

definition send_command :: "pstr \<Rightarrow> world \<Rightarrow> pstr \<times> world" where
  "send_command command w =
     (if \<not> is_open w then ([], log ERROR Serial_not_open w)
      else
        let full_command = command @ CRLF;
            (x, w1) = next_exchange w;
            w2 = emit (Serial_write full_command) w1
        in case x of
             Write_raises \<Rightarrow> ([], log ERROR Serial_exception_during_send w2)
           | Readline_raises \<Rightarrow>
               ([], log ERROR Serial_exception_during_send
                      (sleep 100 (log DEBUG (Sent_command command) w2)))
           | Reply bs \<Rightarrow>
               let w3 = sleep 100 (log DEBUG (Sent_command command) w2)
               in (case decode_utf8_strict bs of
                     None \<Rightarrow> ([], log ERROR Unicode_decode_error w3)
                   | Some text \<Rightarrow>
                       let response = strip text
                       in (response, log DEBUG (Received_response response) w3)))"

text \<open>
  \<open>send_command_with_retry\<close>, lines 173-192.  \<open>retry_attempts\<close> is the \<open>for\<close> loop over
  the attempt numbers still to come; its base case is the code after the loop.
\<close>

fun retry_attempts :: "pylib \<Rightarrow> config \<Rightarrow> pstr \<Rightarrow> int list \<Rightarrow> world \<Rightarrow> bool \<times> world" where
  "retry_attempts L cfg command [] w =
     (False, log ERROR (All_attempts_failed (COMMAND_RETRIES cfg) command) w)"
| "retry_attempts L cfg command (attempt # rest) w =
     (let (response, w1) = send_command command w in
      if str_lower L response = str ''ok''
      then (True, log DEBUG (Command_acknowledged command attempt) w1)
      else retry_attempts L cfg command rest
             (sleep (COMMAND_RETRY_DELAY cfg)
                (log WARNING (Attempt_failed attempt command response) w1)))"

definition send_command_with_retry :: "pylib \<Rightarrow> config \<Rightarrow> pstr \<Rightarrow> world \<Rightarrow> bool \<times> world" where
  "send_command_with_retry L cfg command w =
     retry_attempts L cfg command [1..COMMAND_RETRIES cfg] w"

text \<open>
  \<open>configure_gateway\<close>, lines 194-239.  The \<open>try\<close> suite is \<open>configure_steps\<close>, made of
  the reset and MAC pause (lines 199-207), the three commands whose failure raises (lines
  209-215), and the frequency, spreading factor and receive mode commands (lines 217-236).
\<close>

definition reset_and_pause :: "config \<Rightarrow> world \<Rightarrow> world" where
  "reset_and_pause cfg w =
     (let w1 = log INFO Resetting_module w;
          (_, w2) = send_command (LORA_RESET_COMMAND cfg) w1;
          w3 = sleep 2000 w2;
          w4 = log INFO Pausing_mac w3;
          (_, w5) = send_command (LORA_MAC_PAUSE_COMMAND cfg) w4
      in sleep 500 w5)"

definition set_radio_parameters :: "pylib \<Rightarrow> config \<Rightarrow> world \<Rightarrow> unit outcome \<times> world" where
  "set_radio_parameters L cfg w =
     (let (bw, w1) = send_command_with_retry L cfg (LORA_RADIO_BW_COMMAND cfg) w in
      if \<not> bw then (Raised (Exception (str ''Failed to set bandwidth.'')), w1)
      else
        let (cr, w2) = send_command_with_retry L cfg (LORA_RADIO_CR_COMMAND cfg) w1 in
        if \<not> cr then (Raised (Exception (str ''Failed to set coding rate.'')), w2)
        else
          let (pwr, w3) = send_command_with_retry L cfg (LORA_RADIO_PWR_COMMAND cfg) w2 in
          if \<not> pwr then (Raised (Exception (str ''Failed to set power.'')), w3)
          else (Returned (), w3))"

definition set_frequency :: "pylib \<Rightarrow> config \<Rightarrow> world \<Rightarrow> world" where
  "set_frequency L cfg w =
     (let (ok, w1) = send_command_with_retry L cfg (LORA_RADIO_FREQ_COMMAND cfg)
                       (log INFO Setting_frequency w)
      in if ok then log INFO Frequency_set w1 else log ERROR Failed_to_set_frequency w1)"

definition set_spreading_factor :: "pylib \<Rightarrow> config \<Rightarrow> world \<Rightarrow> world" where
  "set_spreading_factor L cfg w =
     (let (ok, w1) = send_command_with_retry L cfg (LORA_RADIO_SF_COMMAND cfg)
                       (log INFO Setting_spreading_factor w)
      in if ok then log INFO Spreading_factor_set w1
         else log ERROR Failed_to_set_spreading_factor w1)"

definition enter_receive_mode :: "pylib \<Rightarrow> config \<Rightarrow> world \<Rightarrow> world" where
  "enter_receive_mode L cfg w =
     (let (ok, w1) = send_command_with_retry L cfg (LORA_RADIO_RX_COMMAND cfg)
                       (log INFO Entering_receive_mode w)
      in if ok then log INFO Now_in_receive_mode w1
         else log ERROR Failed_to_set_receive_mode w1)"

definition configure_steps :: "pylib \<Rightarrow> config \<Rightarrow> world \<Rightarrow> unit outcome \<times> world" where
  "configure_steps L cfg w =
     (case set_radio_parameters L cfg (reset_and_pause cfg w) of
        (Raised e, w1) \<Rightarrow> (Raised e, w1)
      | (Returned _, w1) \<Rightarrow>
          (Returned (),
           enter_receive_mode L cfg (set_spreading_factor L cfg (set_frequency L cfg w1))))"

text \<open>The \<open>except Exception as e\<close> clause logs and the method returns \<open>None\<close>.\<close>

definition configure_gateway :: "pylib \<Rightarrow> config \<Rightarrow> world \<Rightarrow> unit outcome \<times> world" where
  "configure_gateway L cfg w =
     (case configure_steps L cfg w of
        (Raised e, w1) \<Rightarrow> (Returned (), log ERROR (Error_configuring_gateway e) w1)
      | (Returned _, w1) \<Rightarrow> (Returned (), w1))"

text \<open>
  \<open>send_post_request\<close>, lines 252-271.  Only \<open>requests.RequestException\<close> is caught
  around \<open>requests.post\<close>; anything else it raises leaves the method.
\<close>

definition send_post_request :: "config \<Rightarrow> payload \<Rightarrow> world \<Rightarrow> unit outcome \<times> world" where
  "send_post_request cfg data w =
     (let (r, w1) = requests_post (POST_URL cfg) data w in
      case r of
        Post_raises e \<Rightarrow>
          if e = RequestException then (Returned (), log ERROR Post_exception w1)
          else (Raised e, w1)
      | Response status_code text body \<Rightarrow>
          if status_code = 200 then
            (case body of
               Some response_data \<Rightarrow> (Returned (), log INFO (Post_successful response_data) w1)
             | None \<Rightarrow> (Returned (), log WARNING Post_successful_not_json w1))
          else (Returned (), log ERROR (Post_failed status_code text) w1))"

text \<open>
  \<open>process_received_message\<close>, lines 273-325.  \<open>parse_and_post\<close> is the \<open>try\<close> suite of
  lines 290-303: \<open>json.loads\<close> may raise, and \<open>data.items()\<close> raises \<open>AttributeError\<close>
  when the parsed value is not a \<open>dict\<close>.
\<close>

definition parse_and_post :: "pylib \<Rightarrow> config \<Rightarrow> pstr \<Rightarrow> world \<Rightarrow> unit outcome \<times> world" where
  "parse_and_post L cfg readable_message w =
     (case json_loads L readable_message of
        Raised e \<Rightarrow> (Raised e, w)
      | Returned data \<Rightarrow>
          let w1 = log INFO Parsed_json_data w in
          (case data of
             JObj items \<Rightarrow>
               let w2 = fold (\<lambda>(key, v). log INFO (Json_item key v)) items w1;
                   post_data = \<lparr> sensor_id = SENSOR_ID cfg,
                                 gateway_id = GATEWAY_ID cfg,
                                 data_kwh = dict_get items (str ''TotalActivePower'') (JFloat 0) \<rparr>
               in send_post_request cfg post_data w2
           | _ \<Rightarrow> (Raised AttributeError, w1)))"

definition process_received_message ::
  "pylib \<Rightarrow> config \<Rightarrow> pstr \<Rightarrow> world \<Rightarrow> unit outcome \<times> world" where
  "process_received_message L cfg message w =
     (if startswith message (str ''radio_rx'') then
        (let parts = split message in
         if 2 \<le> length parts then
           let hex_data = parts ! 1;
               (readable_message, w1) = hex_to_string hex_data w;
               w2 = log DEBUG (Received_packet readable_message) w1
           in (case parse_and_post L cfg readable_message w2 of
                 (Returned _, w3) \<Rightarrow> (Returned (), w3)
               | (Raised e, w3) \<Rightarrow>
                   if e = JSONDecodeError
                   then (Returned (), log ERROR (Failed_to_decode_json readable_message) w3)
                   else (Returned (), w3))
         else (Returned (), log ERROR (Unexpected_radio_rx_format message) w))
      else if startswith message (str ''radio_err'') then
        configure_gateway L cfg
          (log INFO Attempting_reconfigure (log ERROR (Receive_error message) w))
      else if startswith message (str ''ok'') then
        (Returned (), log DEBUG (Received_acknowledgment message) w)
      else (Returned (), log WARNING (Unexpected_response message) w))"

text \<open>
  \<open>listen_for_messages\<close>, lines 327-348.  One \<open>poll\<close> is what the port and the operator
  do during one iteration of the \<open>while True\<close> loop: nothing is waiting, a line is waiting
  (the bytes \<open>readline\<close> returns), \<open>ser.in_waiting\<close> or \<open>ser.readline\<close> raises, or the
  operator interrupts.  The loop has no exit of its own: \<open>Polling\<close> says that it is still
  running when the polls given are used up.
\<close>

datatype poll =
    Nothing_waiting
  | Line_waiting pbytes
  | In_waiting_fails exn
  | Readline_fails exn
  | Keyboard_interrupt

datatype loop_state = Polling | Interrupted | Failed exn

fun listen_loop :: "pylib \<Rightarrow> config \<Rightarrow> poll list \<Rightarrow> world \<Rightarrow> loop_state \<times> world" where
  "listen_loop L cfg [] w = (Polling, w)"
| "listen_loop L cfg (Keyboard_interrupt # ps) w = (Interrupted, w)"
| "listen_loop L cfg (In_waiting_fails e # ps) w = (Failed e, w)"
| "listen_loop L cfg (Readline_fails e # ps) w = (Failed e, w)"
| "listen_loop L cfg (Nothing_waiting # ps) w = listen_loop L cfg ps (sleep 100 w)"
| "listen_loop L cfg (Line_waiting bs # ps) w =
     (let raw_message = strip (decode_utf8_ignore bs) in
      if raw_message \<noteq> [] then
        (case process_received_message L cfg raw_message
                (log DEBUG (Raw_message_received raw_message) w) of
           (Raised e, w1) \<Rightarrow> (Failed e, w1)
         | (Returned _, w1) \<Rightarrow>
             let (ok, w2) = send_command_with_retry L cfg (LORA_RADIO_RX_COMMAND cfg) w1;
                 w3 = (if \<not> ok then log ERROR Failed_to_reissue_receive w2 else w2)
             in listen_loop L cfg ps (sleep 100 w3))
      else listen_loop L cfg ps (sleep 100 w))"

definition listen_for_messages ::
  "pylib \<Rightarrow> config \<Rightarrow> poll list \<Rightarrow> world \<Rightarrow> loop_state \<times> world" where
  "listen_for_messages L cfg polls w =
     (case listen_loop L cfg polls (log INFO Listening w) of
        (Polling, w1) \<Rightarrow> (Polling, w1)
      | (Interrupted, w1) \<Rightarrow> (Interrupted, log INFO Stopping_receiver w1)
      | (Failed e, w1) \<Rightarrow> (Failed e, log ERROR (Error_while_listening e) w1))"

section \<open>Observations on a run\<close>

text \<open>The events added between a world and a later one.\<close>

definition new_events :: "world \<Rightarrow> world \<Rightarrow> event list" where
  "new_events w w' = drop (length (trace w)) (trace w')"

text \<open>
  Each call of \<open>send_command\<close> leaves exactly one of two events: the \<open>ser.write\<close> of the
  command, or the record that the port is not open.  \<open>send_attempts\<close> counts them.
\<close>

fun is_send_attempt :: "event \<Rightarrow> bool" where
  "is_send_attempt (Serial_write c) = True"
| "is_send_attempt (Log l m) = (m = Serial_not_open)"
| "is_send_attempt _ = False"

definition send_attempts :: "event list \<Rightarrow> nat" where
  "send_attempts es = length (filter is_send_attempt es)"

text \<open>The time spent in \<open>time.sleep\<close>, in milliseconds.\<close>

fun slept :: "event list \<Rightarrow> nat" where
  "slept [] = 0"
| "slept (Sleep d # es) = d + slept es"
| "slept (_ # es) = slept es"

text \<open>
  The response \<open>send_command\<close> returns at an exchange, and at the \<open>k\<close>-th exchange to
  come of a world.
\<close>

definition response_of :: "exchange \<Rightarrow> pstr" where
  "response_of x =
     (case x of
        Reply bs \<Rightarrow> (case decode_utf8_strict bs of None \<Rightarrow> [] | Some text \<Rightarrow> strip text)
      | _ \<Rightarrow> [])"

definition nth_response :: "world \<Rightarrow> nat \<Rightarrow> pstr" where
  "nth_response w k =
     (if is_open w \<and> k < length (serial_in w) then response_of (serial_in w ! k) else [])"

text \<open>
  Each call of \<open>send_command_with_retry\<close> ends with one record: the command was
  acknowledged, or all its attempts failed.  \<open>retries\<close> lists the commands so concluded,
  in order, with the result returned.
\<close>

fun retry_conclusion :: "event \<Rightarrow> (pstr \<times> bool) option" where
  "retry_conclusion (Log l (Command_acknowledged c k)) = Some (c, True)"
| "retry_conclusion (Log l (All_attempts_failed n c)) = Some (c, False)"
| "retry_conclusion _ = None"

definition retries :: "event list \<Rightarrow> (pstr \<times> bool) list" where
  "retries es = List.map_filter retry_conclusion es"

text \<open>The uploads: URL and payload of each \<open>requests.post\<close> call.\<close>

fun post_of :: "event \<Rightarrow> (pstr \<times> payload) option" where
  "post_of (Http_post url data) = Some (url, data)"
| "post_of _ = None"

definition posts :: "event list \<Rightarrow> (pstr \<times> payload) list" where
  "posts es = List.map_filter post_of es"

text \<open>The command lines handed to \<open>ser.write\<close>.\<close>

fun write_of :: "event \<Rightarrow> pstr option" where
  "write_of (Serial_write x) = Some x"
| "write_of _ = None"

definition writes :: "event list \<Rightarrow> pstr list" where
  "writes es = List.map_filter write_of es"




text \<open>The polls at which the loop goes on: nothing or a line is waiting.\<close>

fun is_arrival :: "poll \<Rightarrow> bool" where
  "is_arrival Nothing_waiting = True"
| "is_arrival (Line_waiting bs) = True"
| "is_arrival _ = False"

section \<open>A library instance and worlds for the worked examples\<close>

text \<open>
  \<open>str.lower()\<close> on ASCII strings, and the values of \<open>json.loads\<close> on the texts of the
  examples below (\<open>JSONDecodeError\<close> on every other text; the only other texts it is
  applied to there are the empty string and \<open>Hello\<close>, which are not JSON).
\<close>

definition ascii_lower :: "pstr \<Rightarrow> pstr" where
  "ascii_lower s = map (\<lambda>c. if 65 \<le> c \<and> c \<le> 90 then c + 32 else c) s"

definition example_json_loads :: "pstr \<Rightarrow> json outcome" where
  "example_json_loads s =
     (if s = str ''{\"TotalActivePower\": 42.5}''
        then Returned (JObj [(str ''TotalActivePower'', JFloat (85 / 2))])
      else if s = str ''{\"Va\": 230}'' then Returned (JObj [(str ''Va'', JInt 230)])
      else if s = str ''[1]'' then Returned (JArr [JInt 1])
      else if s = str ''7'' then Returned (JInt 7)
      else Raised JSONDecodeError)"

definition example_lib :: pylib where
  "example_lib = \<lparr> json_loads = example_json_loads, str_lower = ascii_lower \<rparr>"

text \<open>
  An open port whose radio answers the coming commands with the given lines, and whose
  endpoint answers the coming uploads as given.
\<close>

definition radio_world :: "string list \<Rightarrow> http_outcome list \<Rightarrow> world" where
  "radio_world replies answers =
     \<lparr> is_open = True,
       serial_in = map (\<lambda>r. Reply (str r @ CRLF)) replies,
       http_in = answers,
       trace = [] \<rparr>"

text \<open>A port that was never opened.\<close>

definition closed_world :: world where
  "closed_world = \<lparr> is_open = False, serial_in = [], http_in = [], trace = [] \<rparr>"

section \<open>The codec\<close>

lemma format_X_small: "n < 16 \<Longrightarrow> format_X n = [hex_digit_upper n]"
  by (simp add: format_X.simps)

lemma format_02X_byte:
  "n < 256 \<Longrightarrow> format_02X n = [hex_digit_upper (n div 16), hex_digit_upper (n mod 16)]"
  by (cases "n < 16")
     (simp_all add: format_02X_def format_X.simps [of n] format_X_small hex_digit_upper_def)

lemma hex_value_digit: "d < 16 \<Longrightarrow> hex_value (hex_digit_upper d) = Some d"
  by (auto simp: hex_value_def hex_digit_upper_def)

lemma digit_not_space: "d < 16 \<Longrightarrow> \<not> is_ascii_space (hex_digit_upper d)"
  by (auto simp: is_ascii_space_def hex_digit_upper_def)

lemma fromhex_format_02X:
  assumes "n < 256"
  shows "bytes_fromhex (format_02X n @ rest) = map_option ((#) n) (bytes_fromhex rest)"
proof -
  have d: "n div 16 < 16" "n mod 16 < 16" using assms by auto
  show ?thesis
    using d by (simp add: format_02X_byte [OF assms] hex_value_digit digit_not_space)
qed

lemma fromhex_string_to_hex:
  "\<forall>c\<in>set s. c < 256 \<Longrightarrow> bytes_fromhex (string_to_hex s) = Some s"
proof (induction s)
  case Nil
  then show ?case by (simp add: string_to_hex_def)
next
  case (Cons c s)
  then show ?case
    using fromhex_format_02X [of c "string_to_hex s"] by (simp add: string_to_hex_def)
qed

lemma decode_ascii: "\<forall>c\<in>set s. c < 128 \<Longrightarrow> decode_utf8_ignore s = s"
  by (induction s) simp_all

text \<open>
  C6.  Round trip: for every string \<open>s\<close> of printable ASCII characters (code points 32
  to 126), \<open>hex_to_string (string_to_hex s)\<close> returns \<open>s\<close>, and logs nothing.
\<close>

theorem codec_round_trip:
  assumes "\<forall>c\<in>set s. 32 \<le> c \<and> c \<le> 126"
  shows "hex_to_string (string_to_hex s) w = (s, w)"
proof -
  have a: "\<forall>c\<in>set s. c < 128" using assms by auto
  then have b: "\<forall>c\<in>set s. c < 256" by auto
  show ?thesis
    by (simp add: hex_to_string_def fromhex_string_to_hex [OF b] decode_ascii [OF a])
qed

theorem codec_round_trip_witness:
  "hex_to_string (string_to_hex (str ''Hello, LoRa!'')) closed_world
     = (str ''Hello, LoRa!'', closed_world)"
  using codec_round_trip [of "str ''Hello, LoRa!''" closed_world] by simp

lemma string_to_hex_bytes:
  "\<forall>c\<in>set s. c < 256 \<Longrightarrow>
   string_to_hex s
     = concat (map (\<lambda>c. [hex_digit_upper (c div 16), hex_digit_upper (c mod 16)]) s)"
  by (induction s) (simp_all add: string_to_hex_def format_02X_byte)

lemma length_concat_pairs: "length (concat (map (\<lambda>c. [f c, g c]) s)) = 2 * length s"
  by (induction s) simp_all

text \<open>
  C8, as stated, fails: the euro sign (code point 8364) is mapped to the four digits
  \<open>20AC\<close>, so the output is not twice as long as the input.
\<close>

theorem string_to_hex_length_counterexample:
  "string_to_hex [8364] = str ''20AC'' \<and> length (string_to_hex [8364]) \<noteq> 2 * length [8364::nat]"
  by (simp add: string_to_hex_def format_02X_def format_X.simps hex_digit_upper_def)

text \<open>
  C8, amended.  For every input string whose characters have code points below 256,
  \<open>string_to_hex\<close> maps each character to its two uppercase hexadecimal digits and
  concatenates them, so the output is exactly twice as long as the input.
\<close>

theorem string_to_hex_two_digits:
  assumes "\<forall>c\<in>set s. c < 256"
  shows "string_to_hex s
           = concat (map (\<lambda>c. [hex_digit_upper (c div 16), hex_digit_upper (c mod 16)]) s)
         \<and> length (string_to_hex s) = 2 * length s"
  using string_to_hex_bytes [OF assms] length_concat_pairs by simp

theorem string_to_hex_two_digits_witness:
  "string_to_hex (str ''Hi!'') = str ''486921''
   \<and> length (string_to_hex (str ''Hi!'')) = 2 * length (str ''Hi!'')"
  using string_to_hex_two_digits [of "str ''Hi!''"] by (simp add: hex_digit_upper_def)












section \<open>The command channel\<close>

lemma emit_fields [simp]:
  "is_open (emit e w) = is_open w" "serial_in (emit e w) = serial_in w"
  "http_in (emit e w) = http_in w" "trace (emit e w) = trace w @ [e]"
  by (simp_all add: emit_def)

lemma log_fields [simp]:
  "is_open (log l m w) = is_open w" "serial_in (log l m w) = serial_in w"
  "http_in (log l m w) = http_in w" "trace (log l m w) = trace w @ [Log l m]"
  by (simp_all add: log_def)

lemma sleep_fields [simp]:
  "is_open (sleep d w) = is_open w" "serial_in (sleep d w) = serial_in w"
  "http_in (sleep d w) = http_in w" "trace (sleep d w) = trace w @ [Sleep d]"
  by (simp_all add: sleep_def)

lemma nth_response_emit [simp]:
  "nth_response (emit e w) k = nth_response w k"
  "nth_response (log l m w) k = nth_response w k"
  "nth_response (sleep d w) k = nth_response w k"
  by (simp_all add: nth_response_def)

lemma new_events_eq: "trace w' = trace w @ es \<Longrightarrow> new_events w w' = es"
  by (simp add: new_events_def)

lemma send_attempts_append [simp]:
  "send_attempts (es @ fs) = send_attempts es + send_attempts fs"
  by (simp add: send_attempts_def)

lemma send_attempts_simps [simp]:
  "send_attempts [] = 0"
  "send_attempts (e # es) = (if is_send_attempt e then 1 else 0) + send_attempts es"
  by (simp_all add: send_attempts_def)

lemma slept_append [simp]: "slept (es @ fs) = slept es + slept fs"
  by (induction es rule: slept.induct) simp_all

lemma retries_append [simp]: "retries (es @ fs) = retries es @ retries fs"
  by (simp add: retries_def map_filter_def)

lemma retries_simps [simp]:
  "retries [] = []"
  "retries (e # es) = (case retry_conclusion e of None \<Rightarrow> retries es | Some r \<Rightarrow> r # retries es)"
  by (simp_all add: retries_def map_filter_def split: option.splits)

lemma posts_append [simp]: "posts (es @ fs) = posts es @ posts fs"
  by (simp add: posts_def map_filter_def)

lemma posts_simps [simp]:
  "posts [] = []"
  "posts (e # es) = (case post_of e of None \<Rightarrow> posts es | Some r \<Rightarrow> r # posts es)"
  by (simp_all add: posts_def map_filter_def split: option.splits)

lemma writes_append [simp]: "writes (es @ fs) = writes es @ writes fs"
  by (simp add: writes_def map_filter_def)

lemma writes_simps [simp]:
  "writes [] = []"
  "writes (e # es) = (case write_of e of None \<Rightarrow> writes es | Some r \<Rightarrow> r # writes es)"
  by (simp_all add: writes_def map_filter_def split: option.splits)


lemma send_command_state:
  "is_open (snd (send_command c w)) = is_open w"
  "http_in (snd (send_command c w)) = http_in w"
  "nth_response (snd (send_command c w)) k = nth_response w (Suc k)"
  by (cases "serial_in w";
      auto simp: send_command_def next_exchange_def nth_response_def Let_def
           split: exchange.splits option.splits)+

lemma send_command_events:
  "\<exists>es. trace (snd (send_command c w)) = trace w @ es \<and> send_attempts es = 1
        \<and> retries es = [] \<and> posts es = [] \<and> slept es \<le> 100
        \<and> set (writes es) \<subseteq> {c @ CRLF}"
  by (cases "serial_in w")
     (auto simp: send_command_def next_exchange_def Let_def
           split: exchange.splits option.splits)


lemma length_attempts: "length [1..n] = nat n"
  by simp

text \<open>What the retry loop does, for any list of attempt numbers.\<close>

lemma retry_attempts_state:
  "is_open (snd (retry_attempts L cfg c as w)) = is_open w
   \<and> http_in (snd (retry_attempts L cfg c as w)) = http_in w"
proof (induction as arbitrary: w)
  case Nil
  then show ?case by simp
next
  case (Cons a as)
  then show ?case
    by (cases "send_command c w") (use send_command_state(1,2) [of c w] in auto)
qed

lemma retry_attempts_events:
  "\<exists>es. trace (snd (retry_attempts L cfg c as w)) = trace w @ es
        \<and> send_attempts es \<le> length as
        \<and> retries es = [(c, fst (retry_attempts L cfg c as w))]
        \<and> posts es = []
        \<and> set (writes es) \<subseteq> {c @ CRLF}"
proof (induction as arbitrary: w)
  case Nil
  then show ?case by simp
next
  case (Cons a as)
  obtain r w1 where sc: "send_command c w = (r, w1)" by (cases "send_command c w")
  from send_command_events [of c w] sc obtain es1 where
    es1: "trace w1 = trace w @ es1" "send_attempts es1 = 1" "retries es1 = []" "posts es1 = []"
         "set (writes es1) \<subseteq> {c @ CRLF}"
    by auto
  show ?case
  proof (cases "str_lower L r = str ''ok''")
    case True
    with sc es1 show ?thesis by simp
  next
    case False
    let ?w2 = "sleep (COMMAND_RETRY_DELAY cfg) (log WARNING (Attempt_failed a c r) w1)"
    from Cons.IH [of ?w2] obtain es2 where
      es2: "trace (snd (retry_attempts L cfg c as ?w2)) = trace ?w2 @ es2"
           "send_attempts es2 \<le> length as"
           "retries es2 = [(c, fst (retry_attempts L cfg c as ?w2))]" "posts es2 = []"
           "set (writes es2) \<subseteq> {c @ CRLF}"
      by auto
    have "trace (snd (retry_attempts L cfg c (a # as) w))
            = trace w @ (es1 @ [Log WARNING (Attempt_failed a c r), Sleep (COMMAND_RETRY_DELAY cfg)] @ es2)"
      using sc False es1(1) es2(1) by simp
    moreover have "fst (retry_attempts L cfg c (a # as) w) = fst (retry_attempts L cfg c as ?w2)"
      using sc False by simp
    ultimately show ?thesis
      using es1 es2 by (intro exI [of _ "es1 @ [Log WARNING (Attempt_failed a c r), Sleep (COMMAND_RETRY_DELAY cfg)] @ es2"]) auto
  qed
qed







section \<open>The configuration sequence\<close>

lemma send_command_with_retry_state:
  "is_open (snd (send_command_with_retry L cfg c w)) = is_open w"
  "http_in (snd (send_command_with_retry L cfg c w)) = http_in w"
  using retry_attempts_state [of L cfg c _ w] by (simp_all add: send_command_with_retry_def)

lemma send_command_with_retry_events:
  "\<exists>es. trace (snd (send_command_with_retry L cfg c w)) = trace w @ es
        \<and> retries es = [(c, fst (send_command_with_retry L cfg c w))]
        \<and> posts es = [] \<and> set (writes es) \<subseteq> {c @ CRLF}"
  using retry_attempts_events [of L cfg c "[1..COMMAND_RETRIES cfg]" w]
  unfolding send_command_with_retry_def by blast

lemma reset_and_pause_state:
  "is_open (reset_and_pause cfg w) = is_open w"
  "http_in (reset_and_pause cfg w) = http_in w"
  by (simp_all add: reset_and_pause_def Let_def split_beta send_command_state)

lemma reset_and_pause_events:
  "\<exists>es. trace (reset_and_pause cfg w) = trace w @ es \<and> retries es = [] \<and> posts es = []
        \<and> set (writes es) \<subseteq> {LORA_RESET_COMMAND cfg @ CRLF, LORA_MAC_PAUSE_COMMAND cfg @ CRLF}"
proof -
  let ?w1 = "log INFO Resetting_module w"
  let ?w2 = "snd (send_command (LORA_RESET_COMMAND cfg) ?w1)"
  let ?w4 = "log INFO Pausing_mac (sleep 2000 ?w2)"
  let ?w5 = "snd (send_command (LORA_MAC_PAUSE_COMMAND cfg) ?w4)"
  from send_command_events [of "LORA_RESET_COMMAND cfg" ?w1] obtain es1 where
    es1: "trace ?w2 = trace ?w1 @ es1" "retries es1 = []" "posts es1 = []"
         "set (writes es1) \<subseteq> {LORA_RESET_COMMAND cfg @ CRLF}" by blast
  from send_command_events [of "LORA_MAC_PAUSE_COMMAND cfg" ?w4] obtain es2 where
    es2: "trace ?w5 = trace ?w4 @ es2" "retries es2 = []" "posts es2 = []"
         "set (writes es2) \<subseteq> {LORA_MAC_PAUSE_COMMAND cfg @ CRLF}" by blast
  have "reset_and_pause cfg w = sleep 500 ?w5"
    by (simp add: reset_and_pause_def Let_def split_beta)
  then have "trace (reset_and_pause cfg w)
      = trace w @ ([Log INFO Resetting_module] @ es1 @ [Sleep 2000, Log INFO Pausing_mac] @ es2 @ [Sleep 500])"
    using es1(1) es2(1) by simp
  then show ?thesis
    using es1 es2
    by (intro exI [of _ "[Log INFO Resetting_module] @ es1 @ [Sleep 2000, Log INFO Pausing_mac] @ es2 @ [Sleep 500]"]) auto
qed

lemma set_radio_parameters_state:
  "is_open (snd (set_radio_parameters L cfg w)) = is_open w"
  "http_in (snd (set_radio_parameters L cfg w)) = http_in w"
  by (simp_all add: set_radio_parameters_def Let_def split_beta send_command_with_retry_state)

lemma set_radio_parameters_events:
  "\<exists>es. trace (snd (set_radio_parameters L cfg w)) = trace w @ es \<and> posts es = []
     \<and> set (writes es) \<subseteq> {LORA_RADIO_BW_COMMAND cfg @ CRLF, LORA_RADIO_CR_COMMAND cfg @ CRLF,
                           LORA_RADIO_PWR_COMMAND cfg @ CRLF}
     \<and> (fst (set_radio_parameters L cfg w) = Raised (Exception (str ''Failed to set bandwidth.''))
          \<and> retries es = [(LORA_RADIO_BW_COMMAND cfg, False)]
        \<or> fst (set_radio_parameters L cfg w) = Raised (Exception (str ''Failed to set coding rate.''))
          \<and> retries es = [(LORA_RADIO_BW_COMMAND cfg, True), (LORA_RADIO_CR_COMMAND cfg, False)]
        \<or> fst (set_radio_parameters L cfg w) = Raised (Exception (str ''Failed to set power.''))
          \<and> retries es = [(LORA_RADIO_BW_COMMAND cfg, True), (LORA_RADIO_CR_COMMAND cfg, True),
                           (LORA_RADIO_PWR_COMMAND cfg, False)]
        \<or> fst (set_radio_parameters L cfg w) = Returned ()
          \<and> retries es = [(LORA_RADIO_BW_COMMAND cfg, True), (LORA_RADIO_CR_COMMAND cfg, True),
                           (LORA_RADIO_PWR_COMMAND cfg, True)])"
proof -
  let ?r1 = "send_command_with_retry L cfg (LORA_RADIO_BW_COMMAND cfg) w"
  let ?r2 = "send_command_with_retry L cfg (LORA_RADIO_CR_COMMAND cfg) (snd ?r1)"
  let ?r3 = "send_command_with_retry L cfg (LORA_RADIO_PWR_COMMAND cfg) (snd ?r2)"
  from send_command_with_retry_events [of L cfg "LORA_RADIO_BW_COMMAND cfg" w] obtain es1 where
    es1: "trace (snd ?r1) = trace w @ es1" "retries es1 = [(LORA_RADIO_BW_COMMAND cfg, fst ?r1)]"
         "posts es1 = []" "set (writes es1) \<subseteq> {LORA_RADIO_BW_COMMAND cfg @ CRLF}" by blast
  from send_command_with_retry_events [of L cfg "LORA_RADIO_CR_COMMAND cfg" "snd ?r1"] obtain es2 where
    es2: "trace (snd ?r2) = trace (snd ?r1) @ es2" "retries es2 = [(LORA_RADIO_CR_COMMAND cfg, fst ?r2)]"
         "posts es2 = []" "set (writes es2) \<subseteq> {LORA_RADIO_CR_COMMAND cfg @ CRLF}" by blast
  from send_command_with_retry_events [of L cfg "LORA_RADIO_PWR_COMMAND cfg" "snd ?r2"] obtain es3 where
    es3: "trace (snd ?r3) = trace (snd ?r2) @ es3" "retries es3 = [(LORA_RADIO_PWR_COMMAND cfg, fst ?r3)]"
         "posts es3 = []" "set (writes es3) \<subseteq> {LORA_RADIO_PWR_COMMAND cfg @ CRLF}" by blast
  show ?thesis
  proof (cases "fst ?r1")
    case False
    then have "set_radio_parameters L cfg w
                 = (Raised (Exception (str ''Failed to set bandwidth.'')), snd ?r1)"
      by (simp add: set_radio_parameters_def Let_def split_beta)
    with False es1 show ?thesis by (intro exI [of _ es1]) auto
  next
    case r1: True
    show ?thesis
    proof (cases "fst ?r2")
      case False
      with r1 have "set_radio_parameters L cfg w
                 = (Raised (Exception (str ''Failed to set coding rate.'')), snd ?r2)"
        by (simp add: set_radio_parameters_def Let_def split_beta)
      with False r1 es1 es2 show ?thesis by (intro exI [of _ "es1 @ es2"]) auto
    next
      case r2: True
      show ?thesis
      proof (cases "fst ?r3")
        case False
        with r1 r2 have "set_radio_parameters L cfg w
                 = (Raised (Exception (str ''Failed to set power.'')), snd ?r3)"
          by (simp add: set_radio_parameters_def Let_def split_beta)
        with False r1 r2 es1 es2 es3 show ?thesis by (intro exI [of _ "es1 @ es2 @ es3"]) auto
      next
        case True
        with r1 r2 have "set_radio_parameters L cfg w = (Returned (), snd ?r3)"
          by (simp add: set_radio_parameters_def Let_def split_beta)
        with True r1 r2 es1 es2 es3 show ?thesis by (intro exI [of _ "es1 @ es2 @ es3"]) auto
      qed
    qed
  qed
qed

lemma tunable_state:
  "is_open (set_frequency L cfg w) = is_open w" "http_in (set_frequency L cfg w) = http_in w"
  "is_open (set_spreading_factor L cfg w) = is_open w"
  "http_in (set_spreading_factor L cfg w) = http_in w"
  "is_open (enter_receive_mode L cfg w) = is_open w"
  "http_in (enter_receive_mode L cfg w) = http_in w"
  by (simp_all add: set_frequency_def set_spreading_factor_def enter_receive_mode_def
        Let_def split_beta send_command_with_retry_state)

lemma set_frequency_events:
  "\<exists>es f. trace (set_frequency L cfg w) = trace w @ es \<and> posts es = []
     \<and> retries es = [(LORA_RADIO_FREQ_COMMAND cfg, f)]"
  using send_command_with_retry_events
          [of L cfg "LORA_RADIO_FREQ_COMMAND cfg" "log INFO Setting_frequency w"]
  by (auto simp: set_frequency_def Let_def split_beta)

lemma set_spreading_factor_events:
  "\<exists>es f. trace (set_spreading_factor L cfg w) = trace w @ es \<and> posts es = []
     \<and> retries es = [(LORA_RADIO_SF_COMMAND cfg, f)]"
  using send_command_with_retry_events
          [of L cfg "LORA_RADIO_SF_COMMAND cfg" "log INFO Setting_spreading_factor w"]
  by (auto simp: set_spreading_factor_def Let_def split_beta)

lemma enter_receive_mode_events:
  "\<exists>es f. trace (enter_receive_mode L cfg w) = trace w @ es \<and> posts es = []
     \<and> retries es = [(LORA_RADIO_RX_COMMAND cfg, f)]"
  using send_command_with_retry_events
          [of L cfg "LORA_RADIO_RX_COMMAND cfg" "log INFO Entering_receive_mode w"]
  by (auto simp: enter_receive_mode_def Let_def split_beta)


lemma configure_gateway_returns: "fst (configure_gateway L cfg w) = Returned ()"
  by (cases "configure_steps L cfg w"; cases "fst (configure_steps L cfg w)")
     (simp_all add: configure_gateway_def)

lemma configure_gateway_state:
  "is_open (snd (configure_gateway L cfg w)) = is_open w"
  "http_in (snd (configure_gateway L cfg w)) = http_in w"
  using set_radio_parameters_state [of L cfg "reset_and_pause cfg w"]
  by (cases "set_radio_parameters L cfg (reset_and_pause cfg w)";
      cases "fst (set_radio_parameters L cfg (reset_and_pause cfg w))";
      simp add: configure_gateway_def configure_steps_def tunable_state reset_and_pause_state)+

lemma configure_gateway_events:
  "\<exists>es. trace (snd (configure_gateway L cfg w)) = trace w @ es
     \<and> (retries es = [(LORA_RADIO_BW_COMMAND cfg, False)]
          \<and> last es = Log ERROR (Error_configuring_gateway
                                   (Exception (str ''Failed to set bandwidth.'')))
          \<and> set (writes es) \<subseteq> {LORA_RESET_COMMAND cfg @ CRLF, LORA_MAC_PAUSE_COMMAND cfg @ CRLF,
                LORA_RADIO_BW_COMMAND cfg @ CRLF, LORA_RADIO_CR_COMMAND cfg @ CRLF,
                LORA_RADIO_PWR_COMMAND cfg @ CRLF}
        \<or> retries es = [(LORA_RADIO_BW_COMMAND cfg, True), (LORA_RADIO_CR_COMMAND cfg, False)]
          \<and> last es = Log ERROR (Error_configuring_gateway
                                   (Exception (str ''Failed to set coding rate.'')))
          \<and> set (writes es) \<subseteq> {LORA_RESET_COMMAND cfg @ CRLF, LORA_MAC_PAUSE_COMMAND cfg @ CRLF,
                LORA_RADIO_BW_COMMAND cfg @ CRLF, LORA_RADIO_CR_COMMAND cfg @ CRLF,
                LORA_RADIO_PWR_COMMAND cfg @ CRLF}
        \<or> retries es = [(LORA_RADIO_BW_COMMAND cfg, True), (LORA_RADIO_CR_COMMAND cfg, True),
                         (LORA_RADIO_PWR_COMMAND cfg, False)]
          \<and> last es = Log ERROR (Error_configuring_gateway
                                   (Exception (str ''Failed to set power.'')))
          \<and> set (writes es) \<subseteq> {LORA_RESET_COMMAND cfg @ CRLF, LORA_MAC_PAUSE_COMMAND cfg @ CRLF,
                LORA_RADIO_BW_COMMAND cfg @ CRLF, LORA_RADIO_CR_COMMAND cfg @ CRLF,
                LORA_RADIO_PWR_COMMAND cfg @ CRLF}
        \<or> (\<exists>f s r. retries es = [(LORA_RADIO_BW_COMMAND cfg, True), (LORA_RADIO_CR_COMMAND cfg, True),
                         (LORA_RADIO_PWR_COMMAND cfg, True), (LORA_RADIO_FREQ_COMMAND cfg, f),
                         (LORA_RADIO_SF_COMMAND cfg, s), (LORA_RADIO_RX_COMMAND cfg, r)]))"
  (is "\<exists>es. ?T es \<and> (?A es \<or> ?B es \<or> ?C es \<or> ?D es)")
proof -
  let ?w0 = "reset_and_pause cfg w"
  let ?p = "set_radio_parameters L cfg ?w0"
  let ?five = "{LORA_RESET_COMMAND cfg @ CRLF, LORA_MAC_PAUSE_COMMAND cfg @ CRLF,
                LORA_RADIO_BW_COMMAND cfg @ CRLF, LORA_RADIO_CR_COMMAND cfg @ CRLF,
                LORA_RADIO_PWR_COMMAND cfg @ CRLF}"
  from reset_and_pause_events [of cfg w] obtain es0 where
    es0: "trace ?w0 = trace w @ es0" "retries es0 = []"
      "set (writes es0) \<subseteq> {LORA_RESET_COMMAND cfg @ CRLF, LORA_MAC_PAUSE_COMMAND cfg @ CRLF}"
    by blast
  from set_radio_parameters_events [of L cfg ?w0] obtain es1 where
    es1: "trace (snd ?p) = trace ?w0 @ es1"
      "set (writes es1) \<subseteq> {LORA_RADIO_BW_COMMAND cfg @ CRLF, LORA_RADIO_CR_COMMAND cfg @ CRLF,
                           LORA_RADIO_PWR_COMMAND cfg @ CRLF}"
    and cases: "fst ?p = Raised (Exception (str ''Failed to set bandwidth.''))
          \<and> retries es1 = [(LORA_RADIO_BW_COMMAND cfg, False)]
        \<or> fst ?p = Raised (Exception (str ''Failed to set coding rate.''))
          \<and> retries es1 = [(LORA_RADIO_BW_COMMAND cfg, True), (LORA_RADIO_CR_COMMAND cfg, False)]
        \<or> fst ?p = Raised (Exception (str ''Failed to set power.''))
          \<and> retries es1 = [(LORA_RADIO_BW_COMMAND cfg, True), (LORA_RADIO_CR_COMMAND cfg, True),
                           (LORA_RADIO_PWR_COMMAND cfg, False)]
        \<or> fst ?p = Returned ()
          \<and> retries es1 = [(LORA_RADIO_BW_COMMAND cfg, True), (LORA_RADIO_CR_COMMAND cfg, True),
                           (LORA_RADIO_PWR_COMMAND cfg, True)]"
    by blast
  have abort: "?T (es0 @ es1 @ [Log ERROR (Error_configuring_gateway e)])
               \<and> retries (es0 @ es1 @ [Log ERROR (Error_configuring_gateway e)]) = retries es1
               \<and> last (es0 @ es1 @ [Log ERROR (Error_configuring_gateway e)])
                    = Log ERROR (Error_configuring_gateway e)
               \<and> set (writes (es0 @ es1 @ [Log ERROR (Error_configuring_gateway e)])) \<subseteq> ?five"
    if "fst ?p = Raised e" for e
  proof -
    from that have "snd (configure_gateway L cfg w)
                      = log ERROR (Error_configuring_gateway e) (snd ?p)"
      by (cases ?p) (simp add: configure_gateway_def configure_steps_def)
    then have "?T (es0 @ es1 @ [Log ERROR (Error_configuring_gateway e)])"
      using es0(1) es1(1) by simp
    moreover have "set (writes (es0 @ es1 @ [Log ERROR (Error_configuring_gateway e)])) \<subseteq> ?five"
      using es0(3) es1(2) by auto
    ultimately show ?thesis using es0(2) by simp
  qed
  from cases consider
      (bw) "fst ?p = Raised (Exception (str ''Failed to set bandwidth.''))"
           "retries es1 = [(LORA_RADIO_BW_COMMAND cfg, False)]"
    | (cr) "fst ?p = Raised (Exception (str ''Failed to set coding rate.''))"
           "retries es1 = [(LORA_RADIO_BW_COMMAND cfg, True), (LORA_RADIO_CR_COMMAND cfg, False)]"
    | (pwr) "fst ?p = Raised (Exception (str ''Failed to set power.''))"
           "retries es1 = [(LORA_RADIO_BW_COMMAND cfg, True), (LORA_RADIO_CR_COMMAND cfg, True),
                           (LORA_RADIO_PWR_COMMAND cfg, False)]"
    | (ok) "fst ?p = Returned ()"
           "retries es1 = [(LORA_RADIO_BW_COMMAND cfg, True), (LORA_RADIO_CR_COMMAND cfg, True),
                           (LORA_RADIO_PWR_COMMAND cfg, True)]"
    by blast
  then show ?thesis
  proof cases
    case bw
    let ?es = "es0 @ es1 @ [Log ERROR (Error_configuring_gateway
                                         (Exception (str ''Failed to set bandwidth.'')))]"
    from abort [OF bw(1)] bw(2) have "?T ?es" "?A ?es" by simp_all
    then show ?thesis by blast
  next
    case cr
    let ?es = "es0 @ es1 @ [Log ERROR (Error_configuring_gateway
                                         (Exception (str ''Failed to set coding rate.'')))]"
    from abort [OF cr(1)] cr(2) have "?T ?es" "?B ?es" by simp_all
    then show ?thesis by blast
  next
    case pwr
    let ?es = "es0 @ es1 @ [Log ERROR (Error_configuring_gateway
                                         (Exception (str ''Failed to set power.'')))]"
    from abort [OF pwr(1)] pwr(2) have "?T ?es" "?C ?es" by simp_all
    then show ?thesis by blast
  next
    case ok
    let ?w2 = "set_frequency L cfg (snd ?p)"
    let ?w3 = "set_spreading_factor L cfg ?w2"
    let ?w4 = "enter_receive_mode L cfg ?w3"
    from ok(1) have "snd (configure_gateway L cfg w) = ?w4"
      by (cases ?p) (simp add: configure_gateway_def configure_steps_def)
    moreover from set_frequency_events [of L cfg "snd ?p"] obtain es2 f where
      es2: "trace ?w2 = trace (snd ?p) @ es2"
           "retries es2 = [(LORA_RADIO_FREQ_COMMAND cfg, f)]" by blast
    moreover from set_spreading_factor_events [of L cfg ?w2] obtain es3 s where
      es3: "trace ?w3 = trace ?w2 @ es3"
           "retries es3 = [(LORA_RADIO_SF_COMMAND cfg, s)]" by blast
    moreover from enter_receive_mode_events [of L cfg ?w3] obtain es4 r where
      es4: "trace ?w4 = trace ?w3 @ es4"
           "retries es4 = [(LORA_RADIO_RX_COMMAND cfg, r)]" by blast
    ultimately have "?T (es0 @ es1 @ es2 @ es3 @ es4)"
      using es0(1) es1(1) by simp
    moreover have "?D (es0 @ es1 @ es2 @ es3 @ es4)"
      using es0(2) ok(2) es2(2) es3(2) es4(2) by simp
    ultimately show ?thesis by blast
  qed
qed

text \<open>
  C1, amended.  \<open>configure_gateway\<close> always returns normally to its caller.  The
  \<open>send_command_with_retry\<close> calls it makes are, in order and with their results, one of:
  bandwidth failed; bandwidth succeeded and coding rate failed; these two succeeded and
  power failed; or all three succeeded, followed by frequency, spreading factor and receive
  mode, each with whatever result.  In the first three cases the last event is the error
  record of the failure, and nothing but the reset, MAC pause, bandwidth, coding rate and
  power commands was written to the port: frequency, spreading factor and receive mode
  are never attempted.  When only the frequency command fails, spreading factor and receive
  mode are still attempted.
\<close>

theorem configure_gateway_failure_policy:
  "fst (configure_gateway L cfg w) = Returned ()
   \<and> (\<exists>es. trace (snd (configure_gateway L cfg w)) = trace w @ es
     \<and> (retries es = [(LORA_RADIO_BW_COMMAND cfg, False)]
          \<and> last es = Log ERROR (Error_configuring_gateway
                                   (Exception (str ''Failed to set bandwidth.'')))
          \<and> set (writes es) \<subseteq> {LORA_RESET_COMMAND cfg @ CRLF, LORA_MAC_PAUSE_COMMAND cfg @ CRLF,
                LORA_RADIO_BW_COMMAND cfg @ CRLF, LORA_RADIO_CR_COMMAND cfg @ CRLF,
                LORA_RADIO_PWR_COMMAND cfg @ CRLF}
        \<or> retries es = [(LORA_RADIO_BW_COMMAND cfg, True), (LORA_RADIO_CR_COMMAND cfg, False)]
          \<and> last es = Log ERROR (Error_configuring_gateway
                                   (Exception (str ''Failed to set coding rate.'')))
          \<and> set (writes es) \<subseteq> {LORA_RESET_COMMAND cfg @ CRLF, LORA_MAC_PAUSE_COMMAND cfg @ CRLF,
                LORA_RADIO_BW_COMMAND cfg @ CRLF, LORA_RADIO_CR_COMMAND cfg @ CRLF,
                LORA_RADIO_PWR_COMMAND cfg @ CRLF}
        \<or> retries es = [(LORA_RADIO_BW_COMMAND cfg, True), (LORA_RADIO_CR_COMMAND cfg, True),
                         (LORA_RADIO_PWR_COMMAND cfg, False)]
          \<and> last es = Log ERROR (Error_configuring_gateway
                                   (Exception (str ''Failed to set power.'')))
          \<and> set (writes es) \<subseteq> {LORA_RESET_COMMAND cfg @ CRLF, LORA_MAC_PAUSE_COMMAND cfg @ CRLF,
                LORA_RADIO_BW_COMMAND cfg @ CRLF, LORA_RADIO_CR_COMMAND cfg @ CRLF,
                LORA_RADIO_PWR_COMMAND cfg @ CRLF}
        \<or> (\<exists>f s r. retries es = [(LORA_RADIO_BW_COMMAND cfg, True), (LORA_RADIO_CR_COMMAND cfg, True),
                         (LORA_RADIO_PWR_COMMAND cfg, True), (LORA_RADIO_FREQ_COMMAND cfg, f),
                         (LORA_RADIO_SF_COMMAND cfg, s), (LORA_RADIO_RX_COMMAND cfg, r)])))"
  using configure_gateway_returns [of L cfg w] configure_gateway_events [of L cfg w]
  by (rule conjI)

lemmas run_defs = configure_gateway_def configure_steps_def set_radio_parameters_def
  reset_and_pause_def set_frequency_def set_spreading_factor_def enter_receive_mode_def
  send_command_with_retry_def send_command_def next_exchange_def radio_world_def Config_def
  example_lib_def ascii_lower_def strip_def is_space_def CRLF_def upto.simps Let_def
  new_events_def

text \<open>
  C1, as stated, fails: no failure is reported to the caller.  With a radio that
  acknowledges bandwidth and coding rate and answers \<open>invalid_param\<close> three times to the
  power command, the power command exhausts its retries, and \<open>configure_gateway\<close> returns
  to its caller exactly as it does with a radio that acknowledges every command.
\<close>

theorem configure_gateway_report_counterexample:
  "retries (new_events (radio_world [''RN2903 1.0.5'', ''4294967245'', ''ok'', ''ok'',
                           ''invalid_param'', ''invalid_param'', ''invalid_param''] [])
      (snd (configure_gateway example_lib Config
             (radio_world [''RN2903 1.0.5'', ''4294967245'', ''ok'', ''ok'',
                           ''invalid_param'', ''invalid_param'', ''invalid_param''] []))))
     = [(str ''radio set bw 125'', True), (str ''radio set cr 4/5'', True),
        (str ''radio set pwr 20'', False)]
   \<and> fst (configure_gateway example_lib Config
             (radio_world [''RN2903 1.0.5'', ''4294967245'', ''ok'', ''ok'',
                           ''invalid_param'', ''invalid_param'', ''invalid_param''] []))
     = Returned ()
   \<and> retries (new_events (radio_world [''RN2903 1.0.5'', ''4294967245'', ''ok'', ''ok'',
                           ''ok'', ''ok'', ''ok'', ''ok''] [])
      (snd (configure_gateway example_lib Config
             (radio_world [''RN2903 1.0.5'', ''4294967245'', ''ok'', ''ok'',
                           ''ok'', ''ok'', ''ok'', ''ok''] []))))
     = [(str ''radio set bw 125'', True), (str ''radio set cr 4/5'', True),
        (str ''radio set pwr 20'', True), (str ''radio set freq 910000000'', True),
        (str ''radio set sf sf7'', True), (str ''radio rx 0'', True)]
   \<and> fst (configure_gateway example_lib Config
             (radio_world [''RN2903 1.0.5'', ''4294967245'', ''ok'', ''ok'',
                           ''ok'', ''ok'', ''ok'', ''ok''] []))
     = Returned ()"
  by (simp add: run_defs)

section \<open>Message processing\<close>

lemma hex_to_string_state:
  "is_open (snd (hex_to_string h w)) = is_open w"
  "serial_in (snd (hex_to_string h w)) = serial_in w"
  "http_in (snd (hex_to_string h w)) = http_in w"
  by (simp_all add: hex_to_string_def split: option.splits)

lemma hex_to_string_trace:
  "trace (snd (hex_to_string h w))
     = trace w @ (if bytes_fromhex h = None then [Log ERROR (Invalid_hex_string h)] else [])"
  by (simp add: hex_to_string_def split: option.splits)

lemma send_post_request_state:
  "is_open (snd (send_post_request cfg d w)) = is_open w"
  "serial_in (snd (send_post_request cfg d w)) = serial_in w"
  by (auto simp: send_post_request_def requests_post_def Let_def
           split: list.splits http_outcome.splits option.splits)

lemma send_post_request_events:
  "\<exists>es. trace (snd (send_post_request cfg d w)) = trace w @ es
        \<and> posts es = [(POST_URL cfg, d)] \<and> retries es = [] \<and> writes es = []"
  by (auto simp: send_post_request_def requests_post_def Let_def
           split: list.splits http_outcome.splits option.splits)

lemma log_items_state:
  "is_open (fold (\<lambda>(key, v). log INFO (Json_item key v)) items w) = is_open w"
  "serial_in (fold (\<lambda>(key, v). log INFO (Json_item key v)) items w) = serial_in w"
  "http_in (fold (\<lambda>(key, v). log INFO (Json_item key v)) items w) = http_in w"
  by (induction items arbitrary: w; simp add: split_beta)+

lemma log_items_trace:
  "trace (fold (\<lambda>(key, v). log INFO (Json_item key v)) items w)
     = trace w @ map (\<lambda>(key, v). Log INFO (Json_item key v)) items"
  by (induction items arbitrary: w) (simp_all add: split_beta)

lemma log_items_silent:
  "posts (map (\<lambda>(key, v). Log INFO (Json_item key v)) items) = []"
  "retries (map (\<lambda>(key, v). Log INFO (Json_item key v)) items) = []"
  "writes (map (\<lambda>(key, v). Log INFO (Json_item key v)) items) = []"
  by (induction items; simp add: split_beta)+

lemma parse_and_post_object:
  "json_loads L readable = Returned (JObj items) \<Longrightarrow>
   parse_and_post L cfg readable w
     = send_post_request cfg
         \<lparr> sensor_id = SENSOR_ID cfg, gateway_id = GATEWAY_ID cfg,
           data_kwh = dict_get items (str ''TotalActivePower'') (JFloat 0) \<rparr>
         (fold (\<lambda>(key, v). log INFO (Json_item key v)) items (log INFO Parsed_json_data w))"
  by (simp add: parse_and_post_def)

lemma parse_and_post_state:
  "is_open (snd (parse_and_post L cfg readable w)) = is_open w"
  "serial_in (snd (parse_and_post L cfg readable w)) = serial_in w"
  by (auto simp: parse_and_post_def Let_def send_post_request_state log_items_state
           split: outcome.splits json.splits)

lemma process_radio_rx:
  assumes "startswith message (str ''radio_rx'')" "2 \<le> length (split message)"
  shows "process_received_message L cfg message w =
     (let r = hex_to_string (split message ! 1) w;
          pp = parse_and_post L cfg (fst r) (log DEBUG (Received_packet (fst r)) (snd r))
      in (Returned (),
          if fst pp = Raised JSONDecodeError
          then log ERROR (Failed_to_decode_json (fst r)) (snd pp) else snd pp))"
proof -
  obtain readable w1 where r: "hex_to_string (split message ! 1) w = (readable, w1)"
    by (cases "hex_to_string (split message ! 1) w")
  obtain res w3 where pp:
    "parse_and_post L cfg readable (log DEBUG (Received_packet readable) w1) = (res, w3)"
    by (cases "parse_and_post L cfg readable (log DEBUG (Received_packet readable) w1)")
  show ?thesis
    using assms r pp by (cases res) (simp_all add: process_received_message_def Let_def)
qed

lemma process_received_message_returns:
  "fst (process_received_message L cfg message w) = Returned ()"
proof (cases "startswith message (str ''radio_rx'') \<and> 2 \<le> length (split message)")
  case True
  then show ?thesis by (simp add: process_radio_rx Let_def)
next
  case False
  then show ?thesis
    by (auto simp: process_received_message_def Let_def configure_gateway_returns)
qed

lemma process_received_message_state:
  "is_open (snd (process_received_message L cfg message w)) = is_open w"
proof (cases "startswith message (str ''radio_rx'') \<and> 2 \<le> length (split message)")
  case True
  then show ?thesis
    by (simp add: process_radio_rx Let_def parse_and_post_state hex_to_string_state)
next
  case False
  then show ?thesis
    by (auto simp: process_received_message_def Let_def configure_gateway_state)
qed

text \<open>
  C10.  \<open>process_received_message\<close> returns normally for every message, whatever the
  library functions, the configuration and the world are: no exception reaches the
  receive loop.
\<close>

theorem process_received_message_total:
  "\<exists>w'. process_received_message L cfg message w = (Returned (), w')"
  using process_received_message_returns [of L cfg message w]
  by (cases "process_received_message L cfg message w") simp

text \<open>
  C5.  For a message that starts with \<open>radio_rx\<close> and whose second token
  \<open>hex_to_string\<close> turns into a text that \<open>json.loads\<close> parses as an object, exactly one
  upload is made: to the configured URL, with the configured sensor and gateway
  identifiers, and with \<open>data_kwh\<close> the object's \<open>TotalActivePower\<close> item, or \<open>0.0\<close> when
  the object has none.
\<close>

theorem telemetry_is_uploaded:
  assumes "startswith message (str ''radio_rx'')"
      and "2 \<le> length (split message)"
      and "json_loads L (fst (hex_to_string (split message ! 1) w)) = Returned (JObj items)"
  shows "posts (new_events w (snd (process_received_message L cfg message w)))
           = [(POST_URL cfg,
               \<lparr> sensor_id = SENSOR_ID cfg, gateway_id = GATEWAY_ID cfg,
                 data_kwh = (case map_of items (str ''TotalActivePower'') of
                               Some v \<Rightarrow> v | None \<Rightarrow> JFloat 0) \<rparr>)]"
proof -
  let ?r = "hex_to_string (split message ! 1) w"
  let ?w2 = "log DEBUG (Received_packet (fst ?r)) (snd ?r)"
  let ?d = "\<lparr> sensor_id = SENSOR_ID cfg, gateway_id = GATEWAY_ID cfg,
              data_kwh = dict_get items (str ''TotalActivePower'') (JFloat 0) \<rparr>"
  let ?w3 = "fold (\<lambda>(key, v). log INFO (Json_item key v)) items (log INFO Parsed_json_data ?w2)"
  let ?pp = "parse_and_post L cfg (fst ?r) ?w2"
  have pp: "?pp = send_post_request cfg ?d ?w3"
    using assms(3) by (rule parse_and_post_object)
  from send_post_request_events [of cfg ?d ?w3] obtain es where
    es: "trace (snd (send_post_request cfg ?d ?w3)) = trace ?w3 @ es"
        "posts es = [(POST_URL cfg, ?d)]" by blast
  define xs where "xs = (if bytes_fromhex (split message ! 1) = None
              then [Log ERROR (Invalid_hex_string (split message ! 1))] else [])
             @ [Log DEBUG (Received_packet (fst ?r)), Log INFO Parsed_json_data]
             @ map (\<lambda>(key, v). Log INFO (Json_item key v)) items @ es"
  have xs: "posts xs = [(POST_URL cfg, ?d)]"
    by (simp add: xs_def es(2) log_items_silent)
  have tr: "trace (snd ?pp) = trace w @ xs"
    unfolding pp es(1) xs_def by (simp add: log_items_trace hex_to_string_trace)
  have d: "?d = \<lparr> sensor_id = SENSOR_ID cfg, gateway_id = GATEWAY_ID cfg,
                  data_kwh = (case map_of items (str ''TotalActivePower'') of
                                Some v \<Rightarrow> v | None \<Rightarrow> JFloat 0) \<rparr>"
    by (simp add: dict_get_def)
  show ?thesis
  proof (cases "fst ?pp = Raised JSONDecodeError")
    case False
    then have "snd (process_received_message L cfg message w) = snd ?pp"
      by (simp add: process_radio_rx [OF assms(1,2)] Let_def)
    with new_events_eq [OF tr] xs d show ?thesis by simp
  next
    case True
    then have "snd (process_received_message L cfg message w)
                 = log ERROR (Failed_to_decode_json (fst ?r)) (snd ?pp)"
      by (simp add: process_radio_rx [OF assms(1,2)] Let_def)
    then have "trace (snd (process_received_message L cfg message w))
                 = trace w @ (xs @ [Log ERROR (Failed_to_decode_json (fst ?r))])"
      using tr by simp
    from new_events_eq [OF this] xs d show ?thesis by simp
  qed
qed

lemmas parsing_defs = process_received_message_def parse_and_post_def send_post_request_def
  requests_post_def hex_to_string_def startswith_def split_def hex_value_def
  is_ascii_space_def example_json_loads_def dict_get_def

lemmas message_defs = parsing_defs is_space_def example_lib_def radio_world_def Config_def
  new_events_def Let_def

theorem telemetry_is_uploaded_witness:
  "posts (new_events (radio_world [] [Response 200 (str ''{}'') (Some (JObj []))])
      (snd (process_received_message example_lib Config
              (str ''radio_rx 7B22546F74616C416374697665506F776572223A2034322E357D'')
              (radio_world [] [Response 200 (str ''{}'') (Some (JObj []))]))))
     = [(POST_URL Config,
         \<lparr> sensor_id = 123, gateway_id = str ''GATEWAY001'', data_kwh = JFloat (85 / 2) \<rparr>)]
   \<and> posts (new_events (radio_world [] [])
      (snd (process_received_message example_lib Config
              (str ''radio_rx 7B225661223A203233307D'') (radio_world [] []))))
     = [(POST_URL Config,
         \<lparr> sensor_id = 123, gateway_id = str ''GATEWAY001'', data_kwh = JFloat 0 \<rparr>)]"
  using telemetry_is_uploaded
          [of "str ''radio_rx 7B22546F74616C416374697665506F776572223A2034322E357D''"
              example_lib "radio_world [] [Response 200 (str ''{}'') (Some (JObj []))]"
              "[(str ''TotalActivePower'', JFloat (85 / 2))]" Config]
        telemetry_is_uploaded
          [of "str ''radio_rx 7B225661223A203233307D''" example_lib "radio_world [] []"
              "[(str ''Va'', JInt 230)]" Config]
  by (simp add: message_defs)

section \<open>Errors and log records\<close>

lemma logged_in_new_events:
  "trace w' = trace w @ es \<Longrightarrow> e \<in> set es \<Longrightarrow> e \<in> set (new_events w w')"
  by (simp add: new_events_def)




lemma retry_attempts_exhausted:
  "\<not> fst (retry_attempts L cfg c as w) \<Longrightarrow>
   \<exists>es. trace (snd (retry_attempts L cfg c as w))
          = trace w @ es @ [Log ERROR (All_attempts_failed (COMMAND_RETRIES cfg) c)]"
proof (induction as arbitrary: w)
  case Nil
  then show ?case by simp
next
  case (Cons a as)
  obtain r w1 where sc: "send_command c w = (r, w1)" by (cases "send_command c w")
  from send_command_events [of c w] sc obtain es1 where es1: "trace w1 = trace w @ es1" by auto
  from Cons.prems sc have False: "str_lower L r \<noteq> str ''ok''" by (auto split: if_splits)
  let ?w2 = "sleep (COMMAND_RETRY_DELAY cfg) (log WARNING (Attempt_failed a c r) w1)"
  from Cons.prems sc False have "\<not> fst (retry_attempts L cfg c as ?w2)" by simp
  from Cons.IH [OF this] obtain es2 where
    "trace (snd (retry_attempts L cfg c as ?w2))
       = trace ?w2 @ es2 @ [Log ERROR (All_attempts_failed (COMMAND_RETRIES cfg) c)]" by blast
  then have "trace (snd (retry_attempts L cfg c (a # as) w))
       = trace w @ (es1 @ [Log WARNING (Attempt_failed a c r), Sleep (COMMAND_RETRY_DELAY cfg)] @ es2)
           @ [Log ERROR (All_attempts_failed (COMMAND_RETRIES cfg) c)]"
    using sc False es1 by simp
  then show ?case by blast
qed

lemma retry_exhausted_logged:
  assumes "\<not> fst (send_command_with_retry L cfg c w)"
  shows "Log ERROR (All_attempts_failed (COMMAND_RETRIES cfg) c)
           \<in> set (new_events w (snd (send_command_with_retry L cfg c w)))"
proof -
  from retry_attempts_exhausted [of L cfg c "[1..COMMAND_RETRIES cfg]" w] assms obtain es where
    "trace (snd (send_command_with_retry L cfg c w))
       = trace w @ (es @ [Log ERROR (All_attempts_failed (COMMAND_RETRIES cfg) c)])"
    by (auto simp: send_command_with_retry_def)
  then show ?thesis by (rule logged_in_new_events) simp
qed

lemma configure_steps_trace:
  "\<exists>es. trace (snd (configure_steps L cfg w)) = trace w @ es"
proof -
  let ?w0 = "reset_and_pause cfg w"
  let ?p = "set_radio_parameters L cfg ?w0"
  from reset_and_pause_events [of cfg w] obtain es0 where
    es0: "trace ?w0 = trace w @ es0" by blast
  from set_radio_parameters_events [of L cfg ?w0] obtain es1 where
    es1: "trace (snd ?p) = trace ?w0 @ es1" by blast
  show ?thesis
  proof (cases "fst ?p")
    case (Raised e)
    then have "snd (configure_steps L cfg w) = snd ?p"
      by (cases ?p) (simp add: configure_steps_def)
    with es0 es1 show ?thesis by simp
  next
    case (Returned u)
    let ?w2 = "set_frequency L cfg (snd ?p)"
    let ?w3 = "set_spreading_factor L cfg ?w2"
    let ?w4 = "enter_receive_mode L cfg ?w3"
    from Returned have "snd (configure_steps L cfg w) = ?w4"
      by (cases ?p) (simp add: configure_steps_def)
    moreover from set_frequency_events [of L cfg "snd ?p"] obtain es2 where
      "trace ?w2 = trace (snd ?p) @ es2" by blast
    moreover from set_spreading_factor_events [of L cfg ?w2] obtain es3 where
      "trace ?w3 = trace ?w2 @ es3" by blast
    moreover from enter_receive_mode_events [of L cfg ?w3] obtain es4 where
      "trace ?w4 = trace ?w3 @ es4" by blast
    ultimately show ?thesis using es0 es1 by simp
  qed
qed

lemma configure_gateway_trace:
  "\<exists>es. trace (snd (configure_gateway L cfg w)) = trace w @ es"
  using configure_gateway_events [of L cfg w] by blast

lemma configuration_failure_logged:
  assumes "fst (configure_steps L cfg w) = Raised e"
  shows "Log ERROR (Error_configuring_gateway e)
           \<in> set (new_events w (snd (configure_gateway L cfg w)))"
proof -
  from configure_steps_trace [of L cfg w] obtain es where
    es: "trace (snd (configure_steps L cfg w)) = trace w @ es" by blast
  from assms have "snd (configure_gateway L cfg w)
                     = log ERROR (Error_configuring_gateway e) (snd (configure_steps L cfg w))"
    by (cases "configure_steps L cfg w") (simp add: configure_gateway_def)
  then have "trace (snd (configure_gateway L cfg w))
               = trace w @ (es @ [Log ERROR (Error_configuring_gateway e)])"
    using es by simp
  then show ?thesis by (rule logged_in_new_events) simp
qed

lemma upload_exception_logged:
  assumes "http_in w = [] \<or> http_in w = Post_raises RequestException # rs"
  shows "Log ERROR Post_exception \<in> set (new_events w (snd (send_post_request cfg d w)))"
  using assms by (auto simp: send_post_request_def requests_post_def new_events_def Let_def)

lemma upload_status_logged:
  assumes "http_in w = Response status_code text body # rs" "status_code \<noteq> 200"
  shows "Log ERROR (Post_failed status_code text)
           \<in> set (new_events w (snd (send_post_request cfg d w)))"
  using assms by (auto simp: send_post_request_def requests_post_def new_events_def Let_def)

lemma short_radio_rx_logged:
  assumes "startswith message (str ''radio_rx'')" "length (split message) < 2"
  shows "Log ERROR (Unexpected_radio_rx_format message)
           \<in> set (new_events w (snd (process_received_message L cfg message w)))"
  using assms by (simp add: process_received_message_def Let_def new_events_def)

lemma parse_and_post_trace:
  "\<exists>es. trace (snd (parse_and_post L cfg readable w)) = trace w @ es"
proof (cases "json_loads L readable")
  case (Raised e)
  then show ?thesis by (simp add: parse_and_post_def)
next
  case (Returned data)
  show ?thesis
  proof (cases "\<exists>items. data = JObj items")
    case True
    then obtain items where "data = JObj items" by blast
    with Returned send_post_request_events
           [of cfg _ "fold (\<lambda>(key, v). log INFO (Json_item key v)) items
                        (log INFO Parsed_json_data w)"]
    show ?thesis by (auto simp: parse_and_post_object log_items_trace)
  next
    case False
    with Returned show ?thesis by (cases data) (simp_all add: parse_and_post_def)
  qed
qed

lemma process_radio_rx_trace:
  assumes "startswith message (str ''radio_rx'')" "2 \<le> length (split message)"
  shows "\<exists>es. trace (snd (process_received_message L cfg message w))
     = trace w @ (if bytes_fromhex (split message ! 1) = None
                  then [Log ERROR (Invalid_hex_string (split message ! 1))] else [])
         @ [Log DEBUG (Received_packet (fst (hex_to_string (split message ! 1) w)))]
         @ es
         @ (if fst (parse_and_post L cfg (fst (hex_to_string (split message ! 1) w))
                      (log DEBUG (Received_packet (fst (hex_to_string (split message ! 1) w)))
                         (snd (hex_to_string (split message ! 1) w))))
                 = Raised JSONDecodeError
            then [Log ERROR (Failed_to_decode_json (fst (hex_to_string (split message ! 1) w)))]
            else [])"
proof -
  let ?r = "hex_to_string (split message ! 1) w"
  let ?w2 = "log DEBUG (Received_packet (fst ?r)) (snd ?r)"
  from parse_and_post_trace [of L cfg "fst ?r" ?w2] obtain es where
    "trace (snd (parse_and_post L cfg (fst ?r) ?w2)) = trace ?w2 @ es" by blast
  then show ?thesis
    by (intro exI [of _ es]) (simp add: process_radio_rx [OF assms] Let_def hex_to_string_trace)
qed

lemma bad_hex_logged:
  assumes "startswith message (str ''radio_rx'')" "2 \<le> length (split message)"
      "bytes_fromhex (split message ! 1) = None"
  shows "Log ERROR (Invalid_hex_string (split message ! 1))
           \<in> set (new_events w (snd (process_received_message L cfg message w)))"
proof -
  from process_radio_rx_trace [OF assms(1,2), of L cfg w] obtain xs where
    "trace (snd (process_received_message L cfg message w))
       = trace w @ (Log ERROR (Invalid_hex_string (split message ! 1)) # xs)"
    using assms(3) by auto
  then show ?thesis by (rule logged_in_new_events) simp
qed

lemma bad_json_logged:
  assumes "startswith message (str ''radio_rx'')" "2 \<le> length (split message)"
      "json_loads L (fst (hex_to_string (split message ! 1) w)) = Raised JSONDecodeError"
  shows "Log ERROR (Failed_to_decode_json (fst (hex_to_string (split message ! 1) w)))
           \<in> set (new_events w (snd (process_received_message L cfg message w)))"
proof -
  let ?r = "hex_to_string (split message ! 1) w"
  have "fst (parse_and_post L cfg (fst ?r) (log DEBUG (Received_packet (fst ?r)) (snd ?r)))
          = Raised JSONDecodeError"
    using assms(3) by (simp add: parse_and_post_def)
  with process_radio_rx_trace [OF assms(1,2), of L cfg w] obtain xs where
    "trace (snd (process_received_message L cfg message w))
       = trace w @ (xs @ [Log ERROR (Failed_to_decode_json (fst ?r))])"
    by auto
  then show ?thesis by (rule logged_in_new_events) simp
qed

lemma radio_err_logged:
  assumes "\<not> startswith message (str ''radio_rx'')" "startswith message (str ''radio_err'')"
  shows "Log ERROR (Receive_error message)
           \<in> set (new_events w (snd (process_received_message L cfg message w)))"
proof -
  let ?w1 = "log INFO Attempting_reconfigure (log ERROR (Receive_error message) w)"
  from configure_gateway_trace [of L cfg ?w1] obtain es where
    "trace (snd (configure_gateway L cfg ?w1)) = trace ?w1 @ es" by blast
  then have "trace (snd (process_received_message L cfg message w))
               = trace w @ (Log ERROR (Receive_error message) # Log INFO Attempting_reconfigure # es)"
    using assms by (simp add: process_received_message_def)
  then show ?thesis by (rule logged_in_new_events) simp
qed

lemma other_fault_dropped:
  assumes "startswith message (str ''radio_rx'')" "2 \<le> length (split message)"
    "fst (parse_and_post L cfg (fst (hex_to_string (split message ! 1) w))
            (log DEBUG (Received_packet (fst (hex_to_string (split message ! 1) w)))
               (snd (hex_to_string (split message ! 1) w)))) = Raised e"
    "e \<noteq> JSONDecodeError"
  shows "snd (process_received_message L cfg message w)
           = snd (parse_and_post L cfg (fst (hex_to_string (split message ! 1) w))
                    (log DEBUG (Received_packet (fst (hex_to_string (split message ! 1) w)))
                       (snd (hex_to_string (split message ! 1) w))))"
  using assms(3,4) by (simp add: process_radio_rx [OF assms(1,2)] Let_def)



lemma process_upload_trace:
  assumes "startswith message (str ''radio_rx'')" "2 \<le> length (split message)"
    "json_loads L (fst (hex_to_string (split message ! 1) w)) = Returned (JObj items)"
  shows "\<exists>w3 d xs zs. http_in w3 = http_in w \<and> trace w3 = trace w @ xs
          \<and> trace (snd (process_received_message L cfg message w))
               = trace (snd (send_post_request cfg d w3)) @ zs"
proof -
  let ?r = "hex_to_string (split message ! 1) w"
  let ?w2 = "log DEBUG (Received_packet (fst ?r)) (snd ?r)"
  let ?d = "\<lparr> sensor_id = SENSOR_ID cfg, gateway_id = GATEWAY_ID cfg,
              data_kwh = dict_get items (str ''TotalActivePower'') (JFloat 0) \<rparr>"
  let ?w3 = "fold (\<lambda>(key, v). log INFO (Json_item key v)) items (log INFO Parsed_json_data ?w2)"
  let ?pp = "parse_and_post L cfg (fst ?r) ?w2"
  have pp: "?pp = send_post_request cfg ?d ?w3"
    using assms(3) by (rule parse_and_post_object)
  have h: "http_in ?w3 = http_in w"
    by (simp add: log_items_state hex_to_string_state)
  have t: "trace ?w3 = trace w
            @ ((if bytes_fromhex (split message ! 1) = None
                then [Log ERROR (Invalid_hex_string (split message ! 1))] else [])
               @ [Log DEBUG (Received_packet (fst ?r)), Log INFO Parsed_json_data]
               @ map (\<lambda>(key, v). Log INFO (Json_item key v)) items)"
    by (simp add: log_items_trace hex_to_string_trace)
  have "trace (snd (process_received_message L cfg message w))
          = trace (snd (send_post_request cfg ?d ?w3))
            @ (if fst ?pp = Raised JSONDecodeError
               then [Log ERROR (Failed_to_decode_json (fst ?r))] else [])"
    by (simp add: process_radio_rx [OF assms(1,2)] Let_def pp del: One_nat_def)
  with h t show ?thesis by blast
qed

lemma lift_new_event:
  assumes "trace w1 = trace w @ xs" "trace w3 = trace w2 @ zs"
    "e \<in> set (new_events w1 w2)" "\<exists>ys. trace w2 = trace w1 @ ys"
  shows "e \<in> set (new_events w w3)"
  using assms by (auto simp: new_events_def)

lemma process_upload_exception_logged:
  assumes "startswith message (str ''radio_rx'')" "2 \<le> length (split message)"
    "json_loads L (fst (hex_to_string (split message ! 1) w)) = Returned (JObj items)"
    "http_in w = [] \<or> http_in w = Post_raises RequestException # rs"
  shows "Log ERROR Post_exception
           \<in> set (new_events w (snd (process_received_message L cfg message w)))"
proof -
  from process_upload_trace [OF assms(1-3), of cfg] obtain w3 d xs zs where
    w3: "http_in w3 = http_in w" "trace w3 = trace w @ xs"
        "trace (snd (process_received_message L cfg message w))
           = trace (snd (send_post_request cfg d w3)) @ zs" by blast
  have a: "Log ERROR Post_exception \<in> set (new_events w3 (snd (send_post_request cfg d w3)))"
    using assms(4) w3(1) by (intro upload_exception_logged) simp
  have b: "\<exists>ys. trace (snd (send_post_request cfg d w3)) = trace w3 @ ys"
    using send_post_request_events [of cfg d w3] by blast
  show ?thesis by (rule lift_new_event [OF w3(2) w3(3) a b])
qed

lemma process_upload_status_logged:
  assumes "startswith message (str ''radio_rx'')" "2 \<le> length (split message)"
    "json_loads L (fst (hex_to_string (split message ! 1) w)) = Returned (JObj items)"
    "http_in w = Response status_code rtext body # rs" "status_code \<noteq> 200"
  shows "Log ERROR (Post_failed status_code rtext)
           \<in> set (new_events w (snd (process_received_message L cfg message w)))"
proof -
  from process_upload_trace [OF assms(1-3), of cfg] obtain w3 d xs zs where
    w3: "http_in w3 = http_in w" "trace w3 = trace w @ xs"
        "trace (snd (process_received_message L cfg message w))
           = trace (snd (send_post_request cfg d w3)) @ zs" by blast
  have a: "Log ERROR (Post_failed status_code rtext)
          \<in> set (new_events w3 (snd (send_post_request cfg d w3)))"
    using assms(4,5) w3(1) by (intro upload_status_logged) simp_all
  have b: "\<exists>ys. trace (snd (send_post_request cfg d w3)) = trace w3 @ ys"
    using send_post_request_events [of cfg d w3] by blast
  show ?thesis by (rule lift_new_event [OF w3(2) w3(3) a b])
qed

lemma process_received_message_trace:
  "\<exists>es. trace (snd (process_received_message L cfg message w)) = trace w @ es"
proof (cases "startswith message (str ''radio_rx'') \<and> 2 \<le> length (split message)")
  case True
  then show ?thesis using process_radio_rx_trace [of message L cfg w] by auto
next
  case False
  show ?thesis
  proof (cases "\<not> startswith message (str ''radio_rx'') \<and> startswith message (str ''radio_err'')")
    case True
    let ?w1 = "log INFO Attempting_reconfigure (log ERROR (Receive_error message) w)"
    from configure_gateway_trace [of L cfg ?w1] obtain es where
      "trace (snd (configure_gateway L cfg ?w1)) = trace ?w1 @ es" by blast
    with True show ?thesis by (simp add: process_received_message_def)
  next
    case nerr: False
    with False show ?thesis by (auto simp: process_received_message_def Let_def)
  qed
qed

lemma radio_err_failure_logged:
  assumes "\<not> startswith message (str ''radio_rx'')" "startswith message (str ''radio_err'')"
    "fst (configure_steps L cfg
            (log INFO Attempting_reconfigure (log ERROR (Receive_error message) w))) = Raised e"
  shows "Log ERROR (Error_configuring_gateway e)
           \<in> set (new_events w (snd (process_received_message L cfg message w)))"
proof -
  let ?w1 = "log INFO Attempting_reconfigure (log ERROR (Receive_error message) w)"
  have p: "snd (process_received_message L cfg message w) = snd (configure_gateway L cfg ?w1)"
    using assms(1,2) by (simp add: process_received_message_def)
  have a: "Log ERROR (Error_configuring_gateway e)
             \<in> set (new_events ?w1 (snd (configure_gateway L cfg ?w1)))"
    using assms(3) by (rule configuration_failure_logged)
  have b: "\<exists>ys. trace (snd (configure_gateway L cfg ?w1)) = trace ?w1 @ ys"
    by (rule configure_gateway_trace)
  have c: "trace ?w1 = trace w @ [Log ERROR (Receive_error message), Log INFO Attempting_reconfigure]"
    by simp
  have d: "trace (snd (process_received_message L cfg message w))
             = trace (snd (configure_gateway L cfg ?w1)) @ []"
    using p by simp
  show ?thesis by (rule lift_new_event [OF c d a b])
qed




section \<open>The receive loop\<close>

lemma send_command_open_trace:
  "is_open w \<Longrightarrow>
   \<exists>es. trace (snd (send_command c w)) = trace w @ Serial_write (c @ CRLF) # es"
  by (cases "serial_in w")
     (auto simp: send_command_def next_exchange_def Let_def
           split: exchange.splits option.splits)

lemma retry_attempts_open_trace:
  assumes "is_open w" "as \<noteq> []"
  shows "\<exists>es. trace (snd (retry_attempts L cfg c as w)) = trace w @ Serial_write (c @ CRLF) # es"
proof -
  from assms(2) obtain a rest where as: "as = a # rest" by (cases as) auto
  obtain r w1 where sc: "send_command c w = (r, w1)" by (cases "send_command c w")
  from send_command_open_trace [OF assms(1), of c] sc obtain es1 where
    es1: "trace w1 = trace w @ Serial_write (c @ CRLF) # es1" by auto
  show ?thesis
  proof (cases "str_lower L r = str ''ok''")
    case True
    with sc es1 as show ?thesis by simp
  next
    case False
    let ?w2 = "sleep (COMMAND_RETRY_DELAY cfg) (log WARNING (Attempt_failed a c r) w1)"
    from retry_attempts_events [of L cfg c rest ?w2] obtain es2 where
      "trace (snd (retry_attempts L cfg c rest ?w2)) = trace ?w2 @ es2" by blast
    with sc False es1 as show ?thesis by simp
  qed
qed

lemma reissue_writes_first:
  assumes "is_open w" "0 < COMMAND_RETRIES cfg"
  shows "hd (new_events w (snd (send_command_with_retry L cfg c w))) = Serial_write (c @ CRLF)"
proof -
  from assms(2) have "[1..COMMAND_RETRIES cfg] \<noteq> []" by simp
  from retry_attempts_open_trace [OF assms(1) this, of L cfg c] obtain es where
    "trace (snd (send_command_with_retry L cfg c w)) = trace w @ Serial_write (c @ CRLF) # es"
    by (auto simp: send_command_with_retry_def)
  from new_events_eq [OF this] show ?thesis by simp
qed

lemma reissue_concludes:
  "retries (new_events w (snd (send_command_with_retry L cfg c w)))
     = [(c, fst (send_command_with_retry L cfg c w))]"
  using send_command_with_retry_events [of L cfg c w] by (auto dest: new_events_eq)

lemma listen_loop_line:
  assumes "strip (decode_utf8_ignore bs) \<noteq> []"
  shows "listen_loop L cfg (Line_waiting bs # ps) w =
     (let m = strip (decode_utf8_ignore bs);
          w1 = snd (process_received_message L cfg m (log DEBUG (Raw_message_received m) w));
          r = send_command_with_retry L cfg (LORA_RADIO_RX_COMMAND cfg) w1
      in listen_loop L cfg ps
           (sleep 100 (if fst r then snd r else log ERROR Failed_to_reissue_receive (snd r))))"
proof -
  let ?m = "strip (decode_utf8_ignore bs)"
  let ?p = "process_received_message L cfg ?m (log DEBUG (Raw_message_received ?m) w)"
  obtain w1 where p: "?p = (Returned (), w1)"
    using process_received_message_returns [of L cfg ?m "log DEBUG (Raw_message_received ?m) w"]
    by (cases ?p) simp
  obtain ok w2 where r: "send_command_with_retry L cfg (LORA_RADIO_RX_COMMAND cfg) w1 = (ok, w2)"
    by (cases "send_command_with_retry L cfg (LORA_RADIO_RX_COMMAND cfg) w1")
  show ?thesis using assms p r by (simp add: Let_def)
qed

lemma listen_loop_arrivals:
  "list_all is_arrival ps1 \<Longrightarrow> \<exists>w'. listen_loop L cfg (ps1 @ ps2) w = listen_loop L cfg ps2 w'"
proof (induction ps1 arbitrary: w)
  case Nil
  then show ?case by auto
next
  case (Cons p ps1)
  then have rest: "list_all is_arrival ps1" by simp
  from Cons.prems consider (idle) "p = Nothing_waiting" | (line) bs where "p = Line_waiting bs"
    by (cases p) auto
  then show ?case
  proof cases
    case idle
    with Cons.IH [OF rest, of "sleep 100 w"] show ?thesis by simp
  next
    case line
    show ?thesis
    proof (cases "strip (decode_utf8_ignore bs) = []")
      case True
      with line Cons.IH [OF rest, of "sleep 100 w"] show ?thesis by simp
    next
      case False
      show ?thesis
        unfolding line append_Cons listen_loop_line [OF False] Let_def
        by (rule Cons.IH [OF rest])
    qed
  qed
qed

lemma listen_loop_polling:
  "fst (listen_loop L cfg polls w) = Polling \<longleftrightarrow> list_all is_arrival polls"
proof (induction polls arbitrary: w)
  case Nil
  then show ?case by simp
next
  case (Cons p ps)
  show ?case
  proof (cases p)
    case (Line_waiting bs)
    show ?thesis
    proof (cases "strip (decode_utf8_ignore bs) = []")
      case True
      with Line_waiting Cons.IH [of "sleep 100 w"] show ?thesis by simp
    next
      case False
      show ?thesis
        unfolding Line_waiting listen_loop_line [OF False] Let_def
        using Cons.IH by simp
    qed
  qed (use Cons.IH [of "sleep 100 w"] in simp_all)
qed

lemma listen_loop_exit:
  "(fst (listen_loop L cfg polls w) = Interrupted \<longrightarrow> Keyboard_interrupt \<in> set polls)
   \<and> (fst (listen_loop L cfg polls w) = Failed e \<longrightarrow>
        In_waiting_fails e \<in> set polls \<or> Readline_fails e \<in> set polls)"
proof (induction polls arbitrary: w)
  case Nil
  then show ?case by simp
next
  case (Cons p ps)
  show ?case
  proof (cases p)
    case (Line_waiting bs)
    show ?thesis
    proof (cases "strip (decode_utf8_ignore bs) = []")
      case True
      with Line_waiting Cons.IH [of "sleep 100 w"] show ?thesis by simp
    next
      case False
      show ?thesis
        unfolding Line_waiting listen_loop_line [OF False] Let_def
        using Cons.IH by simp
    qed
  qed (use Cons.IH [of "sleep 100 w"] in auto)
qed

lemma trace_new_events: "trace w' = trace w @ es \<Longrightarrow> trace w' = trace w @ new_events w w'"
  by (simp add: new_events_def)

lemma listen_loop_trace: "\<exists>es. trace (snd (listen_loop L cfg ps w)) = trace w @ es"
proof (induction ps arbitrary: w)
  case Nil
  then show ?case by simp
next
  case (Cons p ps)
  from Cons.IH [of "sleep 100 w"] obtain es0 where
    es0: "trace (snd (listen_loop L cfg ps (sleep 100 w))) = trace w @ Sleep 100 # es0" by auto
  show ?case
  proof (cases p)
    case Nothing_waiting
    with es0 show ?thesis by simp
  next
    case (Line_waiting bs)
    show ?thesis
    proof (cases "strip (decode_utf8_ignore bs) = []")
      case True
      with Line_waiting es0 show ?thesis by simp
    next
      case False
      let ?m = "strip (decode_utf8_ignore bs)"
      let ?w0 = "log DEBUG (Raw_message_received ?m) w"
      let ?w1 = "snd (process_received_message L cfg ?m ?w0)"
      let ?r = "send_command_with_retry L cfg (LORA_RADIO_RX_COMMAND cfg) ?w1"
      let ?w4 = "sleep 100 (if fst ?r then snd ?r else log ERROR Failed_to_reissue_receive (snd ?r))"
      from process_received_message_trace [of L cfg ?m ?w0] obtain es1 where
        es1: "trace ?w1 = trace ?w0 @ es1" by blast
      from send_command_with_retry_events [of L cfg "LORA_RADIO_RX_COMMAND cfg" ?w1] obtain es2 where
        es2: "trace (snd ?r) = trace ?w1 @ es2" by blast
      from Cons.IH [of ?w4] obtain es3 where
        es3: "trace (snd (listen_loop L cfg ps ?w4)) = trace ?w4 @ es3" by blast
      have "listen_loop L cfg (p # ps) w = listen_loop L cfg ps ?w4"
        unfolding Line_waiting using listen_loop_line [OF False, of L cfg ps w]
        by (simp add: Let_def)
      with es1 es2 es3 show ?thesis by (cases "fst ?r") simp_all
    qed
  qed simp_all
qed

lemma iteration_trace:
  assumes "strip (decode_utf8_ignore bs) \<noteq> []"
  shows "\<exists>rest. trace (snd (listen_loop L cfg (Line_waiting bs # ps) w))
     = trace w
       @ Log DEBUG (Raw_message_received (strip (decode_utf8_ignore bs)))
       # new_events (log DEBUG (Raw_message_received (strip (decode_utf8_ignore bs))) w)
           (snd (process_received_message L cfg (strip (decode_utf8_ignore bs))
                   (log DEBUG (Raw_message_received (strip (decode_utf8_ignore bs))) w)))
       @ new_events
           (snd (process_received_message L cfg (strip (decode_utf8_ignore bs))
                   (log DEBUG (Raw_message_received (strip (decode_utf8_ignore bs))) w)))
           (snd (send_command_with_retry L cfg (LORA_RADIO_RX_COMMAND cfg)
                   (snd (process_received_message L cfg (strip (decode_utf8_ignore bs))
                           (log DEBUG (Raw_message_received (strip (decode_utf8_ignore bs))) w)))))
       @ (if fst (send_command_with_retry L cfg (LORA_RADIO_RX_COMMAND cfg)
                   (snd (process_received_message L cfg (strip (decode_utf8_ignore bs))
                           (log DEBUG (Raw_message_received (strip (decode_utf8_ignore bs))) w))))
          then [] else [Log ERROR Failed_to_reissue_receive])
       @ Sleep 100 # rest"
proof -
  let ?m = "strip (decode_utf8_ignore bs)"
  let ?w0 = "log DEBUG (Raw_message_received ?m) w"
  let ?w1 = "snd (process_received_message L cfg ?m ?w0)"
  let ?r = "send_command_with_retry L cfg (LORA_RADIO_RX_COMMAND cfg) ?w1"
  let ?w4 = "sleep 100 (if fst ?r then snd ?r else log ERROR Failed_to_reissue_receive (snd ?r))"
  from process_received_message_trace [of L cfg ?m ?w0] obtain es1 where
    "trace ?w1 = trace ?w0 @ es1" by blast
  then have es1: "trace ?w1 = trace ?w0 @ new_events ?w0 ?w1" by (rule trace_new_events)
  from send_command_with_retry_events [of L cfg "LORA_RADIO_RX_COMMAND cfg" ?w1] obtain es2 where
    "trace (snd ?r) = trace ?w1 @ es2" by blast
  then have es2: "trace (snd ?r) = trace ?w1 @ new_events ?w1 (snd ?r)" by (rule trace_new_events)
  from listen_loop_trace [of L cfg ps ?w4] obtain rest where
    rest: "trace (snd (listen_loop L cfg ps ?w4)) = trace ?w4 @ rest" by blast
  have l: "listen_loop L cfg (Line_waiting bs # ps) w = listen_loop L cfg ps ?w4"
    using listen_loop_line [OF assms, of L cfg ps w] by (simp add: Let_def)
  have w0: "trace ?w0 = trace w @ [Log DEBUG (Raw_message_received ?m)]" by simp
  have w4: "trace ?w4 = trace (snd ?r)
              @ (if fst ?r then [] else [Log ERROR Failed_to_reissue_receive]) @ [Sleep 100]"
    by simp
  have "trace (snd (listen_loop L cfg (Line_waiting bs # ps) w))
     = trace w @ Log DEBUG (Raw_message_received ?m) # new_events ?w0 ?w1
       @ new_events ?w1 (snd ?r)
       @ (if fst ?r then [] else [Log ERROR Failed_to_reissue_receive]) @ Sleep 100 # rest"
    unfolding l rest w4 es2 es1 w0 by simp
  then show ?thesis by blast
qed

lemma loop_holds_handling:
  assumes "strip (decode_utf8_ignore bs) \<noteq> []"
    "e \<in> set (new_events (log DEBUG (Raw_message_received (strip (decode_utf8_ignore bs))) w)
                (snd (process_received_message L cfg (strip (decode_utf8_ignore bs))
                   (log DEBUG (Raw_message_received (strip (decode_utf8_ignore bs))) w))))"
  shows "e \<in> set (new_events w (snd (listen_loop L cfg (Line_waiting bs # ps) w)))"
proof -
  from iteration_trace [OF assms(1), of L cfg ps w] obtain rest where
    t: "trace (snd (listen_loop L cfg (Line_waiting bs # ps) w))
     = trace w
       @ Log DEBUG (Raw_message_received (strip (decode_utf8_ignore bs)))
       # new_events (log DEBUG (Raw_message_received (strip (decode_utf8_ignore bs))) w)
           (snd (process_received_message L cfg (strip (decode_utf8_ignore bs))
                   (log DEBUG (Raw_message_received (strip (decode_utf8_ignore bs))) w)))
       @ new_events
           (snd (process_received_message L cfg (strip (decode_utf8_ignore bs))
                   (log DEBUG (Raw_message_received (strip (decode_utf8_ignore bs))) w)))
           (snd (send_command_with_retry L cfg (LORA_RADIO_RX_COMMAND cfg)
                   (snd (process_received_message L cfg (strip (decode_utf8_ignore bs))
                           (log DEBUG (Raw_message_received (strip (decode_utf8_ignore bs))) w)))))
       @ (if fst (send_command_with_retry L cfg (LORA_RADIO_RX_COMMAND cfg)
                   (snd (process_received_message L cfg (strip (decode_utf8_ignore bs))
                           (log DEBUG (Raw_message_received (strip (decode_utf8_ignore bs))) w))))
          then [] else [Log ERROR Failed_to_reissue_receive])
       @ Sleep 100 # rest" by blast
  show ?thesis
    by (rule logged_in_new_events [OF t]) (use assms(2) in simp)
qed

lemma loop_holds_reissue:
  assumes "strip (decode_utf8_ignore bs) \<noteq> []"
    "e \<in> set (new_events
                (snd (process_received_message L cfg (strip (decode_utf8_ignore bs))
                   (log DEBUG (Raw_message_received (strip (decode_utf8_ignore bs))) w)))
                (snd (send_command_with_retry L cfg (LORA_RADIO_RX_COMMAND cfg)
                   (snd (process_received_message L cfg (strip (decode_utf8_ignore bs))
                           (log DEBUG (Raw_message_received (strip (decode_utf8_ignore bs))) w))))))"
  shows "e \<in> set (new_events w (snd (listen_loop L cfg (Line_waiting bs # ps) w)))"
proof -
  from iteration_trace [OF assms(1), of L cfg ps w] obtain rest where
    t: "trace (snd (listen_loop L cfg (Line_waiting bs # ps) w))
     = trace w
       @ Log DEBUG (Raw_message_received (strip (decode_utf8_ignore bs)))
       # new_events (log DEBUG (Raw_message_received (strip (decode_utf8_ignore bs))) w)
           (snd (process_received_message L cfg (strip (decode_utf8_ignore bs))
                   (log DEBUG (Raw_message_received (strip (decode_utf8_ignore bs))) w)))
       @ new_events
           (snd (process_received_message L cfg (strip (decode_utf8_ignore bs))
                   (log DEBUG (Raw_message_received (strip (decode_utf8_ignore bs))) w)))
           (snd (send_command_with_retry L cfg (LORA_RADIO_RX_COMMAND cfg)
                   (snd (process_received_message L cfg (strip (decode_utf8_ignore bs))
                           (log DEBUG (Raw_message_received (strip (decode_utf8_ignore bs))) w)))))
       @ (if fst (send_command_with_retry L cfg (LORA_RADIO_RX_COMMAND cfg)
                   (snd (process_received_message L cfg (strip (decode_utf8_ignore bs))
                           (log DEBUG (Raw_message_received (strip (decode_utf8_ignore bs))) w))))
          then [] else [Log ERROR Failed_to_reissue_receive])
       @ Sleep 100 # rest" by blast
  show ?thesis
    by (rule logged_in_new_events [OF t]) (use assms(2) in simp)
qed

lemma loop_logs_reissue_failure:
  assumes "strip (decode_utf8_ignore bs) \<noteq> []"
    "\<not> fst (send_command_with_retry L cfg (LORA_RADIO_RX_COMMAND cfg)
             (snd (process_received_message L cfg (strip (decode_utf8_ignore bs))
                     (log DEBUG (Raw_message_received (strip (decode_utf8_ignore bs))) w))))"
  shows "Log ERROR Failed_to_reissue_receive
           \<in> set (new_events w (snd (listen_loop L cfg (Line_waiting bs # ps) w)))"
proof -
  from iteration_trace [OF assms(1), of L cfg ps w] obtain rest where
    t: "trace (snd (listen_loop L cfg (Line_waiting bs # ps) w))
     = trace w
       @ Log DEBUG (Raw_message_received (strip (decode_utf8_ignore bs)))
       # new_events (log DEBUG (Raw_message_received (strip (decode_utf8_ignore bs))) w)
           (snd (process_received_message L cfg (strip (decode_utf8_ignore bs))
                   (log DEBUG (Raw_message_received (strip (decode_utf8_ignore bs))) w)))
       @ new_events
           (snd (process_received_message L cfg (strip (decode_utf8_ignore bs))
                   (log DEBUG (Raw_message_received (strip (decode_utf8_ignore bs))) w)))
           (snd (send_command_with_retry L cfg (LORA_RADIO_RX_COMMAND cfg)
                   (snd (process_received_message L cfg (strip (decode_utf8_ignore bs))
                           (log DEBUG (Raw_message_received (strip (decode_utf8_ignore bs))) w)))))
       @ (if fst (send_command_with_retry L cfg (LORA_RADIO_RX_COMMAND cfg)
                   (snd (process_received_message L cfg (strip (decode_utf8_ignore bs))
                           (log DEBUG (Raw_message_received (strip (decode_utf8_ignore bs))) w))))
          then [] else [Log ERROR Failed_to_reissue_receive])
       @ Sleep 100 # rest" by blast
  show ?thesis
    by (rule logged_in_new_events [OF t]) (use assms(2) in simp)
qed

lemma listen_loop_reaches:
  "list_all is_arrival ps1 \<Longrightarrow>
   \<exists>w' es. listen_loop L cfg (ps1 @ ps2) w = listen_loop L cfg ps2 w' \<and> trace w' = trace w @ es"
proof (induction ps1 arbitrary: w)
  case Nil
  then show ?case by auto
next
  case (Cons p ps1)
  then have rest: "list_all is_arrival ps1" by simp
  have step: "\<exists>w' es. listen_loop L cfg ((p # ps1) @ ps2) w = listen_loop L cfg ps2 w'
                      \<and> trace w' = trace w @ es"
    if "listen_loop L cfg ((p # ps1) @ ps2) w = listen_loop L cfg (ps1 @ ps2) v"
       "trace v = trace w @ xs" for v xs
  proof -
    from Cons.IH [OF rest, of v] obtain w' es where
      "listen_loop L cfg (ps1 @ ps2) v = listen_loop L cfg ps2 w'" "trace w' = trace v @ es"
      by blast
    with that show ?thesis by auto
  qed
  from Cons.prems consider (idle) "p = Nothing_waiting" | (line) bs where "p = Line_waiting bs"
    by (cases p) auto
  then show ?case
  proof cases
    case idle
    have h: "listen_loop L cfg ((p # ps1) @ ps2) w = listen_loop L cfg (ps1 @ ps2) (sleep 100 w)"
      using idle by simp
    show ?thesis by (rule step [of "sleep 100 w" "[Sleep 100]"]) (use h in simp_all)
  next
    case line
    show ?thesis
    proof (cases "strip (decode_utf8_ignore bs) = []")
      case True
      have h: "listen_loop L cfg ((p # ps1) @ ps2) w = listen_loop L cfg (ps1 @ ps2) (sleep 100 w)"
        using line True by simp
      show ?thesis by (rule step [of "sleep 100 w" "[Sleep 100]"]) (use h in simp_all)
    next
      case False
      let ?m = "strip (decode_utf8_ignore bs)"
      let ?w0 = "log DEBUG (Raw_message_received ?m) w"
      let ?w1 = "snd (process_received_message L cfg ?m ?w0)"
      let ?r = "send_command_with_retry L cfg (LORA_RADIO_RX_COMMAND cfg) ?w1"
      let ?w4 = "sleep 100 (if fst ?r then snd ?r else log ERROR Failed_to_reissue_receive (snd ?r))"
      from process_received_message_trace [of L cfg ?m ?w0] obtain es1 where
        es1: "trace ?w1 = trace ?w0 @ es1" by blast
      from send_command_with_retry_events [of L cfg "LORA_RADIO_RX_COMMAND cfg" ?w1] obtain es2 where
        es2: "trace (snd ?r) = trace ?w1 @ es2" by blast
      have l: "listen_loop L cfg ((p # ps1) @ ps2) w = listen_loop L cfg (ps1 @ ps2) ?w4"
        unfolding line append_Cons using listen_loop_line [OF False, of L cfg "ps1 @ ps2" w]
        by (simp add: Let_def)
      have "\<exists>xs. trace ?w4 = trace w @ xs"
        using es1 es2 by (cases "fst ?r") simp_all
      then obtain xs where xs: "trace ?w4 = trace w @ xs" by blast
      show ?thesis by (rule step [OF l xs])
    qed
  qed
qed

lemma loop_continues_to:
  assumes "list_all is_arrival ps1" "strip (decode_utf8_ignore bs) \<noteq> []"
  shows "Log DEBUG (Raw_message_received (strip (decode_utf8_ignore bs)))
           \<in> set (new_events w (snd (listen_loop L cfg (ps1 @ Line_waiting bs # ps2) w)))"
proof -
  from listen_loop_reaches [OF assms(1), of L cfg "Line_waiting bs # ps2" w] obtain w' es where
    w': "listen_loop L cfg (ps1 @ Line_waiting bs # ps2) w
           = listen_loop L cfg (Line_waiting bs # ps2) w'" "trace w' = trace w @ es" by blast
  from iteration_trace [OF assms(2), of L cfg ps2 w'] obtain ys where
    "trace (snd (listen_loop L cfg (Line_waiting bs # ps2) w'))
       = trace w' @ Log DEBUG (Raw_message_received (strip (decode_utf8_ignore bs))) # ys"
    by blast
  then have "trace (snd (listen_loop L cfg (ps1 @ Line_waiting bs # ps2) w))
       = trace w @ (es @ Log DEBUG (Raw_message_received (strip (decode_utf8_ignore bs))) # ys)"
    using w' by simp
  then show ?thesis by (rule logged_in_new_events) simp
qed

lemma reissue_writes:
  assumes "is_open w" "0 < COMMAND_RETRIES cfg"
  shows "Serial_write (c @ CRLF) \<in> set (new_events w (snd (send_command_with_retry L cfg c w)))"
proof -
  from assms(2) have "[1..COMMAND_RETRIES cfg] \<noteq> []" by simp
  from retry_attempts_open_trace [OF assms(1) this, of L cfg c] obtain es where
    "trace (snd (send_command_with_retry L cfg c w)) = trace w @ Serial_write (c @ CRLF) # es"
    by (auto simp: send_command_with_retry_def)
  then show ?thesis by (rule logged_in_new_events) simp
qed

text \<open>
  C2, amended.  The receive loop does not end because of a message: after any polls at
  which nothing or a line is waiting, whatever the lines hold, the loop goes on and
  handles the line that follows, and \<open>listen_for_messages\<close> is still polling exactly when
  all its polls were of that kind.  It ends only when the operator interrupts, which it
  records with \<open>Stopping receiver\<close>, or when \<open>ser.in_waiting\<close> or \<open>ser.readline\<close> raises,
  which it records as an error.  A fault of the handling of a line leaves an \<open>ERROR\<close>
  record in the trace of the loop: a \<open>radio_rx\<close> message with fewer than two tokens, with
  an invalid hex payload, or with a payload at which \<open>json.loads\<close> raises
  \<open>JSONDecodeError\<close>; an upload that raises \<open>RequestException\<close> or is answered with a
  status other than 200; a \<open>radio_err\<close> message, and the configuration abandoned after
  it; a receive command whose retries are exhausted when it is issued again.  The
  exception: an exception of the \<open>try\<close> suite that is not a \<open>JSONDecodeError\<close> is dropped
  by \<open>except Exception: pass\<close>, which adds no record.
\<close>

theorem receive_loop_exits:
  assumes m: "strip (decode_utf8_ignore bs) = m"
  shows
  "(list_all is_arrival ps1 \<longrightarrow>
      (\<exists>w'. listen_loop L cfg (ps1 @ ps2) w = listen_loop L cfg ps2 w'))
   \<and> (list_all is_arrival ps1 \<and> m \<noteq> [] \<longrightarrow>
        Log DEBUG (Raw_message_received m)
          \<in> set (new_events w (snd (listen_loop L cfg (ps1 @ Line_waiting bs # ps2) w))))
   \<and> (fst (listen_for_messages L cfg polls w) = Polling \<longleftrightarrow> list_all is_arrival polls)
   \<and> (fst (listen_for_messages L cfg polls w) = Interrupted \<longrightarrow>
        Keyboard_interrupt \<in> set polls
        \<and> last (trace (snd (listen_for_messages L cfg polls w))) = Log INFO Stopping_receiver)
   \<and> (fst (listen_for_messages L cfg polls w) = Failed e \<longrightarrow>
        (In_waiting_fails e \<in> set polls \<or> Readline_fails e \<in> set polls)
        \<and> last (trace (snd (listen_for_messages L cfg polls w)))
            = Log ERROR (Error_while_listening e))
   \<and> (m \<noteq> [] \<and> startswith m (str ''radio_rx'') \<and> length (split m) < 2 \<longrightarrow>
        Log ERROR (Unexpected_radio_rx_format m)
          \<in> set (new_events w (snd (listen_loop L cfg (Line_waiting bs # ps) w))))
   \<and> (m \<noteq> [] \<and> startswith m (str ''radio_rx'') \<and> 2 \<le> length (split m)
        \<and> bytes_fromhex (split m ! 1) = None \<longrightarrow>
        Log ERROR (Invalid_hex_string (split m ! 1))
          \<in> set (new_events w (snd (listen_loop L cfg (Line_waiting bs # ps) w))))
   \<and> (m \<noteq> [] \<and> startswith m (str ''radio_rx'') \<and> 2 \<le> length (split m)
        \<and> json_loads L (fst (hex_to_string (split m ! 1) w)) = Raised JSONDecodeError \<longrightarrow>
        Log ERROR (Failed_to_decode_json (fst (hex_to_string (split m ! 1) w)))
          \<in> set (new_events w (snd (listen_loop L cfg (Line_waiting bs # ps) w))))
   \<and> (m \<noteq> [] \<and> startswith m (str ''radio_rx'') \<and> 2 \<le> length (split m)
        \<and> json_loads L (fst (hex_to_string (split m ! 1) w)) = Returned (JObj items)
        \<and> (http_in w = [] \<or> http_in w = Post_raises RequestException # rs) \<longrightarrow>
        Log ERROR Post_exception
          \<in> set (new_events w (snd (listen_loop L cfg (Line_waiting bs # ps) w))))
   \<and> (m \<noteq> [] \<and> startswith m (str ''radio_rx'') \<and> 2 \<le> length (split m)
        \<and> json_loads L (fst (hex_to_string (split m ! 1) w)) = Returned (JObj items)
        \<and> http_in w = Response status_code rtext body # rs \<and> status_code \<noteq> 200 \<longrightarrow>
        Log ERROR (Post_failed status_code rtext)
          \<in> set (new_events w (snd (listen_loop L cfg (Line_waiting bs # ps) w))))
   \<and> (m \<noteq> [] \<and> \<not> startswith m (str ''radio_rx'') \<and> startswith m (str ''radio_err'') \<longrightarrow>
        Log ERROR (Receive_error m)
          \<in> set (new_events w (snd (listen_loop L cfg (Line_waiting bs # ps) w))))
   \<and> (m \<noteq> [] \<and> \<not> startswith m (str ''radio_rx'') \<and> startswith m (str ''radio_err'')
        \<and> fst (configure_steps L cfg
                 (log INFO Attempting_reconfigure
                    (log ERROR (Receive_error m) (log DEBUG (Raw_message_received m) w))))
            = Raised x \<longrightarrow>
        Log ERROR (Error_configuring_gateway x)
          \<in> set (new_events w (snd (listen_loop L cfg (Line_waiting bs # ps) w))))
   \<and> (m \<noteq> []
        \<and> \<not> fst (send_command_with_retry L cfg (LORA_RADIO_RX_COMMAND cfg)
                   (snd (process_received_message L cfg m
                           (log DEBUG (Raw_message_received m) w)))) \<longrightarrow>
        Log ERROR (All_attempts_failed (COMMAND_RETRIES cfg) (LORA_RADIO_RX_COMMAND cfg))
          \<in> set (new_events w (snd (listen_loop L cfg (Line_waiting bs # ps) w)))
        \<and> Log ERROR Failed_to_reissue_receive
          \<in> set (new_events w (snd (listen_loop L cfg (Line_waiting bs # ps) w))))
   \<and> (m \<noteq> [] \<and> startswith m (str ''radio_rx'') \<and> 2 \<le> length (split m)
        \<and> fst (parse_and_post L cfg (fst (hex_to_string (split m ! 1) w))
                 (log DEBUG (Received_packet (fst (hex_to_string (split m ! 1) w)))
                    (snd (hex_to_string (split m ! 1) (log DEBUG (Raw_message_received m) w)))))
            = Raised y
        \<and> y \<noteq> JSONDecodeError \<longrightarrow>
        snd (process_received_message L cfg m (log DEBUG (Raw_message_received m) w))
          = snd (parse_and_post L cfg (fst (hex_to_string (split m ! 1) w))
                   (log DEBUG (Received_packet (fst (hex_to_string (split m ! 1) w)))
                      (snd (hex_to_string (split m ! 1)
                              (log DEBUG (Raw_message_received m) w))))))"
proof -
  let ?w0 = "log DEBUG (Raw_message_received m) w"
  let ?R = "snd (listen_loop L cfg (Line_waiting bs # ps) w)"
  let ?r = "listen_loop L cfg polls (log INFO Listening w)"
  have v: "fst (hex_to_string h ?w0) = fst (hex_to_string h w)" for h
    by (simp add: hex_to_string_def split: option.splits)
  have lift: "e \<in> set (new_events w ?R)"
    if "m \<noteq> []" "e \<in> set (new_events ?w0 (snd (process_received_message L cfg m ?w0)))" for e
    using loop_holds_handling [of bs e w L cfg ps] that unfolding m by simp
  have lift2: "e \<in> set (new_events w ?R)"
    if "m \<noteq> []"
       "e \<in> set (new_events (snd (process_received_message L cfg m ?w0))
                   (snd (send_command_with_retry L cfg (LORA_RADIO_RX_COMMAND cfg)
                           (snd (process_received_message L cfg m ?w0)))))" for e
    using loop_holds_reissue [of bs e L cfg w ps] that unfolding m by simp
  have fst_eq: "fst (listen_for_messages L cfg polls w) = fst ?r"
    by (cases ?r; cases "fst ?r") (simp_all add: listen_for_messages_def)
  have i: "last (trace (snd (listen_for_messages L cfg polls w))) = Log INFO Stopping_receiver"
    if "fst ?r = Interrupted"
    using that by (cases ?r) (simp add: listen_for_messages_def)
  have f: "last (trace (snd (listen_for_messages L cfg polls w)))
             = Log ERROR (Error_while_listening e)"
    if "fst ?r = Failed e"
    using that by (cases ?r) (simp add: listen_for_messages_def)
  show ?thesis
  proof (intro conjI impI; (elim conjE)?)
    assume "list_all is_arrival ps1"
    then show "\<exists>w'. listen_loop L cfg (ps1 @ ps2) w = listen_loop L cfg ps2 w'"
      by (rule listen_loop_arrivals)
  next
    assume "list_all is_arrival ps1" "m \<noteq> []"
    then show "Log DEBUG (Raw_message_received m)
          \<in> set (new_events w (snd (listen_loop L cfg (ps1 @ Line_waiting bs # ps2) w)))"
      using loop_continues_to [of ps1 bs w L cfg ps2] unfolding m by simp
  next
    show "(fst (listen_for_messages L cfg polls w) = Polling) = list_all is_arrival polls"
      unfolding fst_eq by (rule listen_loop_polling)
  next
    assume "fst (listen_for_messages L cfg polls w) = Interrupted"
    then show "Keyboard_interrupt \<in> set polls"
      using listen_loop_exit [of L cfg polls "log INFO Listening w" e] unfolding fst_eq by simp
  next
    assume "fst (listen_for_messages L cfg polls w) = Interrupted"
    then show "last (trace (snd (listen_for_messages L cfg polls w))) = Log INFO Stopping_receiver"
      unfolding fst_eq by (rule i)
  next
    assume "fst (listen_for_messages L cfg polls w) = Failed e"
    then show "In_waiting_fails e \<in> set polls \<or> Readline_fails e \<in> set polls"
      using listen_loop_exit [of L cfg polls "log INFO Listening w" e] unfolding fst_eq by simp
  next
    assume "fst (listen_for_messages L cfg polls w) = Failed e"
    then show "last (trace (snd (listen_for_messages L cfg polls w)))
                 = Log ERROR (Error_while_listening e)"
      unfolding fst_eq by (rule f)
  next
    assume "m \<noteq> []" "startswith m (str ''radio_rx'')" "length (split m) < 2"
    then show "Log ERROR (Unexpected_radio_rx_format m) \<in> set (new_events w ?R)"
      by (intro lift short_radio_rx_logged)
  next
    assume "m \<noteq> []" "startswith m (str ''radio_rx'')" "2 \<le> length (split m)"
      "bytes_fromhex (split m ! 1) = None"
    then show "Log ERROR (Invalid_hex_string (split m ! 1)) \<in> set (new_events w ?R)"
      by (intro lift bad_hex_logged)
  next
    assume a: "m \<noteq> []" "startswith m (str ''radio_rx'')" "2 \<le> length (split m)"
      "json_loads L (fst (hex_to_string (split m ! 1) w)) = Raised JSONDecodeError"
    have "Log ERROR (Failed_to_decode_json (fst (hex_to_string (split m ! 1) ?w0)))
            \<in> set (new_events ?w0 (snd (process_received_message L cfg m ?w0)))"
      using a(2-4) by (intro bad_json_logged) (simp_all only: v)
    then show "Log ERROR (Failed_to_decode_json (fst (hex_to_string (split m ! 1) w)))
                 \<in> set (new_events w ?R)"
      unfolding v by (rule lift [OF a(1)])
  next
    assume a: "m \<noteq> []" "startswith m (str ''radio_rx'')" "2 \<le> length (split m)"
      "json_loads L (fst (hex_to_string (split m ! 1) w)) = Returned (JObj items)"
      "http_in w = [] \<or> http_in w = Post_raises RequestException # rs"
    have "Log ERROR Post_exception
            \<in> set (new_events ?w0 (snd (process_received_message L cfg m ?w0)))"
    proof (rule process_upload_exception_logged [OF a(2,3)])
      show "json_loads L (fst (hex_to_string (split m ! 1) ?w0)) = Returned (JObj items)"
        unfolding v by (rule a(4))
      show "http_in ?w0 = [] \<or> http_in ?w0 = Post_raises RequestException # rs"
        using a(5) by simp
    qed
    then show "Log ERROR Post_exception \<in> set (new_events w ?R)"
      by (rule lift [OF a(1)])
  next
    assume a: "m \<noteq> []" "startswith m (str ''radio_rx'')" "2 \<le> length (split m)"
      "json_loads L (fst (hex_to_string (split m ! 1) w)) = Returned (JObj items)"
      "http_in w = Response status_code rtext body # rs" "status_code \<noteq> 200"
    have "Log ERROR (Post_failed status_code rtext)
            \<in> set (new_events ?w0 (snd (process_received_message L cfg m ?w0)))"
    proof (rule process_upload_status_logged [OF a(2,3) _ _ a(6)])
      show "json_loads L (fst (hex_to_string (split m ! 1) ?w0)) = Returned (JObj items)"
        unfolding v by (rule a(4))
      show "http_in ?w0 = Response status_code rtext body # rs"
        using a(5) by simp
    qed
    then show "Log ERROR (Post_failed status_code rtext) \<in> set (new_events w ?R)"
      by (rule lift [OF a(1)])
  next
    assume "m \<noteq> []" "\<not> startswith m (str ''radio_rx'')" "startswith m (str ''radio_err'')"
    then show "Log ERROR (Receive_error m) \<in> set (new_events w ?R)"
      by (intro lift radio_err_logged)
  next
    assume a: "m \<noteq> []" "\<not> startswith m (str ''radio_rx'')" "startswith m (str ''radio_err'')"
      "fst (configure_steps L cfg
              (log INFO Attempting_reconfigure (log ERROR (Receive_error m) ?w0))) = Raised x"
    show "Log ERROR (Error_configuring_gateway x) \<in> set (new_events w ?R)"
      by (rule lift [OF a(1)]) (rule radio_err_failure_logged [OF a(2-4)])
  next
    assume a: "m \<noteq> []"
      "\<not> fst (send_command_with_retry L cfg (LORA_RADIO_RX_COMMAND cfg)
                (snd (process_received_message L cfg m ?w0)))"
    show "Log ERROR (All_attempts_failed (COMMAND_RETRIES cfg) (LORA_RADIO_RX_COMMAND cfg))
            \<in> set (new_events w ?R)"
      by (rule lift2 [OF a(1)]) (rule retry_exhausted_logged [OF a(2)])
  next
    assume a: "m \<noteq> []"
      "\<not> fst (send_command_with_retry L cfg (LORA_RADIO_RX_COMMAND cfg)
                (snd (process_received_message L cfg m ?w0)))"
    show "Log ERROR Failed_to_reissue_receive \<in> set (new_events w ?R)"
      using loop_logs_reissue_failure [of bs L cfg w ps] a unfolding m by simp
  next
    assume a: "m \<noteq> []" "startswith m (str ''radio_rx'')" "2 \<le> length (split m)"
      "fst (parse_and_post L cfg (fst (hex_to_string (split m ! 1) w))
              (log DEBUG (Received_packet (fst (hex_to_string (split m ! 1) w)))
                 (snd (hex_to_string (split m ! 1) ?w0)))) = Raised y"
      "y \<noteq> JSONDecodeError"
    show "snd (process_received_message L cfg m ?w0)
          = snd (parse_and_post L cfg (fst (hex_to_string (split m ! 1) w))
                   (log DEBUG (Received_packet (fst (hex_to_string (split m ! 1) w)))
                      (snd (hex_to_string (split m ! 1) ?w0))))"
      using other_fault_dropped [OF a(2,3), of L cfg ?w0 y] a(4,5) unfolding v by simp
  qed
qed

lemmas loop_defs = listen_for_messages_def parsing_defs run_defs

theorem receive_loop_exits_witness:
  "fst (listen_for_messages example_lib Config
          [Line_waiting (str ''radio_rx 48656C6C6F'' @ CRLF), Nothing_waiting,
           Line_waiting (str ''radio_err'' @ CRLF)]
          (radio_world [''ok''] [])) = Polling
   \<and> last (trace (snd (listen_for_messages example_lib Config
          [Nothing_waiting, Keyboard_interrupt] (radio_world [] []))))
       = Log INFO Stopping_receiver
   \<and> last (trace (snd (listen_for_messages example_lib Config
          [In_waiting_fails OSError] (radio_world [] []))))
       = Log ERROR (Error_while_listening OSError)
   \<and> Log ERROR (Failed_to_decode_json (str ''Hello''))
       \<in> set (new_events (radio_world [''ok''] [])
                (snd (listen_loop example_lib Config
                        [Line_waiting (str ''radio_rx 48656C6C6F'' @ CRLF), Nothing_waiting]
                        (radio_world [''ok''] []))))
   \<and> Log DEBUG (Raw_message_received (str ''radio_rx 48656C6C6F''))
       \<in> set (new_events (radio_world [''ok''] [])
                (snd (listen_loop example_lib Config
                        ([Nothing_waiting, Line_waiting (str ''radio_rx 37'' @ CRLF)]
                         @ Line_waiting (str ''radio_rx 48656C6C6F'' @ CRLF) # [])
                        (radio_world [''ok''] []))))"
proof -
  have m: "strip (decode_utf8_ignore (str ''radio_rx 48656C6C6F'' @ CRLF))
             = str ''radio_rx 48656C6C6F''"
    by (simp add: strip_def CRLF_def is_space_def)
  note th = receive_loop_exits [OF m, where L = example_lib and cfg = Config and e = OSError]
  have a: "list_all is_arrival
             [Line_waiting (str ''radio_rx 48656C6C6F'' @ CRLF), Nothing_waiting,
              Line_waiting (str ''radio_err'' @ CRLF)]"
    by simp
  have b: "fst (listen_for_messages example_lib Config
             [Nothing_waiting, Keyboard_interrupt] (radio_world [] [])) = Interrupted"
    by (simp add: listen_for_messages_def)
  have c: "fst (listen_for_messages example_lib Config
             [In_waiting_fails OSError] (radio_world [] [])) = Failed OSError"
    by (simp add: listen_for_messages_def)
  have d: "str ''radio_rx 48656C6C6F'' \<noteq> []
           \<and> startswith (str ''radio_rx 48656C6C6F'') (str ''radio_rx'')
           \<and> 2 \<le> length (split (str ''radio_rx 48656C6C6F''))
           \<and> json_loads example_lib
                (fst (hex_to_string (split (str ''radio_rx 48656C6C6F'') ! 1)
                        (radio_world [''ok''] []))) = Raised JSONDecodeError
           \<and> fst (hex_to_string (split (str ''radio_rx 48656C6C6F'') ! 1)
                        (radio_world [''ok''] [])) = str ''Hello''"
    by (simp add: message_defs)
  have g: "list_all is_arrival [Nothing_waiting, Line_waiting (str ''radio_rx 37'' @ CRLF)]
           \<and> str ''radio_rx 48656C6C6F'' \<noteq> []"
    by simp
  from th [where w = "radio_world [''ok''] []"
             and polls = "[Line_waiting (str ''radio_rx 48656C6C6F'' @ CRLF), Nothing_waiting,
                           Line_waiting (str ''radio_err'' @ CRLF)]"] a
  have 1: "fst (listen_for_messages example_lib Config
          [Line_waiting (str ''radio_rx 48656C6C6F'' @ CRLF), Nothing_waiting,
           Line_waiting (str ''radio_err'' @ CRLF)]
          (radio_world [''ok''] [])) = Polling"
    by blast
  from th [where w = "radio_world [] []" and polls = "[Nothing_waiting, Keyboard_interrupt]"] b
  have 2: "last (trace (snd (listen_for_messages example_lib Config
          [Nothing_waiting, Keyboard_interrupt] (radio_world [] []))))
       = Log INFO Stopping_receiver"
    by blast
  from th [where w = "radio_world [] []" and polls = "[In_waiting_fails OSError]"] c
  have 3: "last (trace (snd (listen_for_messages example_lib Config
          [In_waiting_fails OSError] (radio_world [] []))))
       = Log ERROR (Error_while_listening OSError)"
    by blast
  from th [where w = "radio_world [''ok''] []" and ps = "[Nothing_waiting]"] d
  have 4: "Log ERROR (Failed_to_decode_json (str ''Hello''))
       \<in> set (new_events (radio_world [''ok''] [])
                (snd (listen_loop example_lib Config
                        [Line_waiting (str ''radio_rx 48656C6C6F'' @ CRLF), Nothing_waiting]
                        (radio_world [''ok''] []))))"
    by metis
  from th [where w = "radio_world [''ok''] []"
             and ?ps1.0 = "[Nothing_waiting, Line_waiting (str ''radio_rx 37'' @ CRLF)]"
             and ?ps2.0 = "[]"] g
  have 5: "Log DEBUG (Raw_message_received (str ''radio_rx 48656C6C6F''))
       \<in> set (new_events (radio_world [''ok''] [])
                (snd (listen_loop example_lib Config
                        ([Nothing_waiting, Line_waiting (str ''radio_rx 37'' @ CRLF)]
                         @ Line_waiting (str ''radio_rx 48656C6C6F'' @ CRLF) # [])
                        (radio_world [''ok''] []))))"
    by blast
  from 1 2 3 4 5 show ?thesis by blast
qed

text \<open>
  C2, as stated, fails: a fault raised while a message is handled is not always logged.
  The line \<open>radio_rx 5B315D\<close> carries the payload \<open>[1]\<close>, at which the \<open>try\<close> suite raises
  \<open>AttributeError\<close>; the loop goes on, and the whole run holds no record of the fault.
\<close>

theorem unlogged_fault_counterexample:
  "fst (parse_and_post example_lib Config (str ''[1]'')
          (log DEBUG (Received_packet (str ''[1]''))
             (log DEBUG (Raw_message_received (str ''radio_rx 5B315D''))
                (log INFO Listening (radio_world [''ok''] [])))))
     = Raised AttributeError
   \<and> listen_for_messages example_lib Config [Line_waiting (str ''radio_rx 5B315D'' @ CRLF)]
       (radio_world [''ok''] [])
     = (Polling,
        \<lparr> is_open = True, serial_in = [], http_in = [],
          trace = [Log INFO Listening,
                   Log DEBUG (Raw_message_received (str ''radio_rx 5B315D'')),
                   Log DEBUG (Received_packet (str ''[1]'')),
                   Log INFO Parsed_json_data,
                   Serial_write (str ''radio rx 0'' @ CRLF),
                   Log DEBUG (Sent_command (str ''radio rx 0'')),
                   Sleep 100,
                   Log DEBUG (Received_response (str ''ok'')),
                   Log DEBUG (Command_acknowledged (str ''radio rx 0'') 1),
                   Sleep 100] \<rparr>)"
  by (simp add: loop_defs emit_def log_def sleep_def)

text \<open>
  C3.  For every line that is not blank, of whatever kind, the iteration of the loop
  processes the message, which returns, then calls \<open>send_command_with_retry\<close> with the
  receive command (\<open>radio rx 0\<close> in \<open>Config\<close>), and only then sleeps and polls again: the
  trace of the loop holds the record of the line, the events of the processing, the
  events of the call, which runs to its conclusion, and the sleep, in this order, before
  anything that follows.  On an open port with at least one attempt configured the first
  event of the call is the write of the command, which the trace of the loop holds.
\<close>

theorem receive_mode_reissued:
  assumes "strip (decode_utf8_ignore bs) \<noteq> []"
  shows "\<exists>w1 ok w2 rest.
      process_received_message L cfg (strip (decode_utf8_ignore bs))
        (log DEBUG (Raw_message_received (strip (decode_utf8_ignore bs))) w) = (Returned (), w1)
    \<and> send_command_with_retry L cfg (LORA_RADIO_RX_COMMAND cfg) w1 = (ok, w2)
    \<and> listen_loop L cfg (Line_waiting bs # ps) w
        = listen_loop L cfg ps
            (sleep 100 (if ok then w2 else log ERROR Failed_to_reissue_receive w2))
    \<and> retries (new_events w1 w2) = [(LORA_RADIO_RX_COMMAND cfg, ok)]
    \<and> (is_open w \<and> 0 < COMMAND_RETRIES cfg \<longrightarrow>
         hd (new_events w1 w2) = Serial_write (LORA_RADIO_RX_COMMAND cfg @ CRLF))
    \<and> LORA_RADIO_RX_COMMAND Config = str ''radio rx 0''
    \<and> trace (snd (listen_loop L cfg (Line_waiting bs # ps) w))
        = trace w
          @ Log DEBUG (Raw_message_received (strip (decode_utf8_ignore bs)))
          # new_events (log DEBUG (Raw_message_received (strip (decode_utf8_ignore bs))) w) w1
          @ new_events w1 w2
          @ (if ok then [] else [Log ERROR Failed_to_reissue_receive])
          @ Sleep 100 # rest
    \<and> (LORA_RADIO_RX_COMMAND cfg, ok)
        \<in> set (retries (new_events w (snd (listen_loop L cfg (Line_waiting bs # ps) w))))
    \<and> (is_open w \<and> 0 < COMMAND_RETRIES cfg \<longrightarrow>
         Serial_write (LORA_RADIO_RX_COMMAND cfg @ CRLF)
           \<in> set (new_events w (snd (listen_loop L cfg (Line_waiting bs # ps) w))))"
proof -
  let ?m = "strip (decode_utf8_ignore bs)"
  let ?w0 = "log DEBUG (Raw_message_received ?m) w"
  let ?p = "process_received_message L cfg ?m ?w0"
  let ?r = "send_command_with_retry L cfg (LORA_RADIO_RX_COMMAND cfg) (snd ?p)"
  let ?R = "snd (listen_loop L cfg (Line_waiting bs # ps) w)"
  have p: "?p = (Returned (), snd ?p)"
    using process_received_message_returns [of L cfg ?m ?w0] by (cases ?p) simp
  have r: "?r = (fst ?r, snd ?r)" by simp
  have l: "listen_loop L cfg (Line_waiting bs # ps) w
        = listen_loop L cfg ps
            (sleep 100 (if fst ?r then snd ?r else log ERROR Failed_to_reissue_receive (snd ?r)))"
    using listen_loop_line [OF assms, of L cfg ps w] by (simp add: Let_def)
  have c: "retries (new_events (snd ?p) (snd ?r)) = [(LORA_RADIO_RX_COMMAND cfg, fst ?r)]"
    by (rule reissue_concludes)
  have o: "is_open (snd ?p) = is_open w"
    by (simp add: process_received_message_state)
  have h: "is_open w \<and> 0 < COMMAND_RETRIES cfg \<longrightarrow>
         hd (new_events (snd ?p) (snd ?r)) = Serial_write (LORA_RADIO_RX_COMMAND cfg @ CRLF)"
    using reissue_writes_first [of "snd ?p" cfg L "LORA_RADIO_RX_COMMAND cfg"] o by simp
  have k: "LORA_RADIO_RX_COMMAND Config = str ''radio rx 0''" by (simp add: Config_def)
  from iteration_trace [OF assms, of L cfg ps w] obtain rest where
    t: "trace ?R = trace w @ Log DEBUG (Raw_message_received ?m) # new_events ?w0 (snd ?p)
          @ new_events (snd ?p) (snd ?r)
          @ (if fst ?r then [] else [Log ERROR Failed_to_reissue_receive])
          @ Sleep 100 # rest" by blast
  have q: "(LORA_RADIO_RX_COMMAND cfg, fst ?r) \<in> set (retries (new_events w ?R))"
    unfolding new_events_eq [OF t] by (simp add: c)
  have s: "is_open w \<and> 0 < COMMAND_RETRIES cfg \<longrightarrow>
         Serial_write (LORA_RADIO_RX_COMMAND cfg @ CRLF) \<in> set (new_events w ?R)"
  proof (intro impI, elim conjE)
    assume "is_open w" "0 < COMMAND_RETRIES cfg"
    then have "Serial_write (LORA_RADIO_RX_COMMAND cfg @ CRLF)
                 \<in> set (new_events (snd ?p) (snd ?r))"
      using o by (intro reissue_writes) simp_all
    then show "Serial_write (LORA_RADIO_RX_COMMAND cfg @ CRLF) \<in> set (new_events w ?R)"
      by (rule loop_holds_reissue [OF assms])
  qed
  show ?thesis
    apply (rule exI [of _ "snd ?p"])
    apply (rule exI [of _ "fst ?r"])
    apply (rule exI [of _ "snd ?r"])
    apply (rule exI [of _ rest])
    apply (intro conjI)
            apply (rule p)
           apply (rule r)
          apply (rule l)
         apply (rule c)
        apply (rule h)
       apply (rule k)
      apply (rule t)
     apply (rule q)
    apply (rule s)
    done
qed

theorem receive_mode_reissued_witness:
  "Serial_write (str ''radio rx 0'' @ CRLF)
     \<in> set (new_events (radio_world [''ok''] [])
              (snd (listen_loop example_lib Config
                      [Line_waiting (str ''radio_rx 48656C6C6F'' @ CRLF), Nothing_waiting]
                      (radio_world [''ok''] []))))"
proof -
  have n: "strip (decode_utf8_ignore (str ''radio_rx 48656C6C6F'' @ CRLF)) \<noteq> []"
    by (simp add: strip_def CRLF_def is_space_def)
  have o: "is_open (radio_world [''ok''] []) \<and> 0 < COMMAND_RETRIES Config"
    by (simp add: radio_world_def Config_def)
  have k: "LORA_RADIO_RX_COMMAND Config = str ''radio rx 0''" by (simp add: Config_def)
  from receive_mode_reissued
         [OF n, of example_lib Config "radio_world [''ok''] []" "[Nothing_waiting]"] o
  show ?thesis unfolding k by blast
qed

end
